theory Spec2Isabelle
  imports Complex_Main "HOL-Library.Log_Nat"
begin

section \<open>The reconnecting WebSocket helper of client/src/lib/websocket.ts\<close>

text \<open>
  The module keeps five module-level variables (\<open>socket\<close>, \<open>reconnectAttempts\<close>,
  \<open>maxReconnectAttempts\<close>, \<open>reconnectTimer\<close>, \<open>isReconnecting\<close>) and talks to three
  browser facilities: WebSocket objects, the timer table of \<open>setTimeout\<close> /
  \<open>clearTimeout\<close>, and \<open>window.dispatchEvent\<close>. The embedding passes one record, the
  \<open>world\<close>, through every function: the module variables together with the part of the
  browser the module reads and writes.

  The attempt counter, which only ever holds 0..10, is a natural number. A delay is a
  double; it is modelled by the rational it denotes, and every arithmetic operation of
  line 126 is followed by the rounding to the nearest double (\<open>to_double\<close> below).
\<close>

subsection \<open>Browser objects\<close>

datatype readyState = CONNECTING | OPEN | CLOSING | CLOSED

text \<open>
  The callbacks the module hands to \<open>setTimeout\<close>: the arrow function of
  \<open>createWSConnection\<close> (lines 42-52) and the one of \<open>scheduleReconnect\<close>
  (lines 131-134). Neither captures a local variable; both read the module variables
  when they run.
\<close>

datatype callback = ConnectionTimeout | Reconnect

text \<open>
  A WebSocket object as the module sees it. The four handlers installed on it are the
  same code for every socket; what differs is the constant \<open>connectionTimeout\<close> that
  \<open>onopen\<close> and \<open>onclose\<close> capture, kept here with the socket.
\<close>

record websocket =
  readyState :: readyState
  url :: string
  connectionTimeout :: nat

text \<open>
  JavaScript values, as far as \<open>payload: any\<close> and the result of \<open>JSON.parse\<close> need them.
\<close>

datatype jsval =
    JUndefined
  | JNull
  | JBool bool
  | JNumber rat
  | JBigInt int
  | JString string
  | JArray "jsval list"
  | JObject "(string \<times> jsval) list"

datatype level = LOG | WARN | ERROR

datatype exn = TypeError | SyntaxError

subsection \<open>The state\<close>

record world =
  \<comment> \<open>module variables, lines 4-8 (\<open>maxReconnectAttempts\<close> is never assigned: a constant below)\<close>
  socket :: "nat option"
  reconnectAttempts :: nat
  reconnectTimer :: "nat option"
  isReconnecting :: bool
  \<comment> \<open>the browser: WebSocket objects by reference, pending timers by id\<close>
  sockets :: "nat \<rightharpoonup> websocket"
  nextSocket :: nat
  timers :: "nat \<rightharpoonup> callback \<times> rat"
  nextTimer :: nat
  \<comment> \<open>\<open>window.location.protocol\<close> and \<open>window.location.host\<close>\<close>
  location_protocol :: string
  location_host :: string
  \<comment> \<open>what the module emits: console lines, window events, frames handed to \<open>socket.send\<close>\<close>
  console :: "(level \<times> string) list"
  dispatched :: "(string \<times> jsval) list"
  sent :: "(nat \<times> jsval) list"

definition maxReconnectAttempts :: nat where
  "maxReconnectAttempts = 10"

definition initial :: "string \<Rightarrow> string \<Rightarrow> world" where
  "initial proto host =
     \<lparr> socket = None, reconnectAttempts = 0, reconnectTimer = None, isReconnecting = False,
       sockets = Map.empty, nextSocket = 0, timers = Map.empty, nextTimer = 1,
       location_protocol = proto, location_host = host,
       console = [], dispatched = [], sent = [] \<rparr>"

subsection \<open>Browser primitives\<close>

text \<open>
  A console line is kept as its level and the fixed text of the message; the values the
  code interpolates or appends (counts, the rounded delay, error objects) are left out.
\<close>

definition console_write :: "level \<Rightarrow> string \<Rightarrow> world \<Rightarrow> world" where
  "console_write l msg w = w\<lparr> console := console w @ [(l, msg)] \<rparr>"

text \<open>\<open>setTimeout\<close> returns a fresh id; \<open>clearTimeout\<close> of an id that is not pending does nothing.\<close>

definition setTimeout :: "callback \<Rightarrow> rat \<Rightarrow> world \<Rightarrow> nat \<times> world" where
  "setTimeout cb ms w =
     (nextTimer w, w\<lparr> timers := (timers w)(nextTimer w \<mapsto> (cb, ms)), nextTimer := Suc (nextTimer w) \<rparr>)"

definition clearTimeout :: "nat \<Rightarrow> world \<Rightarrow> world" where
  "clearTimeout t w = w\<lparr> timers := (timers w)(t := None) \<rparr>"

text \<open>
  \<open>socket.close()\<close> without arguments never throws. On a CONNECTING or OPEN socket it
  starts the closing handshake (readyState becomes CLOSING; the close event comes
  later, as an event of its own); on a CLOSING or CLOSED socket it does nothing.
\<close>

definition ws_close :: "nat \<Rightarrow> world \<Rightarrow> world" where
  "ws_close s w =
     (case sockets w s of
        None \<Rightarrow> w
      | Some ws \<Rightarrow>
          if readyState ws = CONNECTING \<or> readyState ws = OPEN
          then w\<lparr> sockets := (sockets w)(s \<mapsto> ws\<lparr> readyState := CLOSING \<rparr>) \<rparr>
          else w)"

definition socket_state :: "world \<Rightarrow> readyState option" where
  "socket_state w =
     (case socket w of None \<Rightarrow> None
      | Some s \<Rightarrow> (case sockets w s of None \<Rightarrow> None | Some ws \<Rightarrow> Some (readyState ws)))"

subsection \<open>Doubles\<close>

text \<open>
  A finite double is a rational. An operation on doubles gives the double nearest to
  the exact result, ties going to the even significand: 53 bits of significand in the
  binade of the result, and a fixed spacing of \<open>2 ^ -1074\<close> below \<open>2 ^ -1022\<close>.
  \<open>expo x\<close> is the exponent of a positive \<open>x\<close>, that is \<open>2 ^ expo x \<le> x < 2 ^ (expo x + 1)\<close>;
  \<open>ulp x\<close> is the spacing of the doubles around \<open>x\<close>. Overflow to Infinity is not
  modelled: the numbers of this module stay below 65536.
\<close>

definition expo :: "rat \<Rightarrow> int" where
  "expo x =
     (let (a, b) = quotient_of x; d = bitlen a - bitlen b
      in if 2 powi d \<le> x then d else d - 1)"

definition round_even :: "rat \<Rightarrow> int" where
  "round_even q =
     (let f = \<lfloor>q\<rfloor>; r = q - of_int f
      in if r < 1 / 2 then f else if 1 / 2 < r then f + 1 else if even f then f else f + 1)"

definition ulp :: "rat \<Rightarrow> rat" where
  "ulp x = 2 powi (max (expo \<bar>x\<bar>) (- 1022) - 52)"

definition to_double :: "rat \<Rightarrow> rat" where
  "to_double x =
     (if x = 0 then 0 else sgn x * of_int (round_even (\<bar>x\<bar> / ulp x)) * ulp x)"

subsection \<open>scheduleReconnect, lines 112-135\<close>

text \<open>
  Line 126. The argument \<open>rnd\<close> is the value \<open>Math.random()\<close> returns, a double in
  \<open>[0, 1)\<close>. Four operations round: \<open>Math.pow\<close>, the two products and the sum;
  \<open>Math.min\<close> returns one of its arguments.
\<close>

definition reconnectDelay :: "nat \<Rightarrow> rat \<Rightarrow> rat" where
  "reconnectDelay n rnd =
     min (to_double (to_double (1000 * to_double ((3 / 2) ^ n)) + to_double (rnd * 1000))) 30000"

definition scheduleReconnect :: "rat \<Rightarrow> world \<Rightarrow> world" where
  "scheduleReconnect rnd w =
     (if reconnectAttempts w \<ge> maxReconnectAttempts then
        (console_write ERROR ''Maximum reconnection attempts reached. Giving up.'' w)
          \<lparr> isReconnecting := False \<rparr>
      else
        let w1 = (case reconnectTimer w of None \<Rightarrow> w | Some t \<Rightarrow> clearTimeout t w);
            delay = reconnectDelay (reconnectAttempts w1) rnd;
            w2 = w1\<lparr> reconnectAttempts := reconnectAttempts w1 + 1 \<rparr>;
            w3 = console_write LOG ''Scheduling WebSocket reconnect attempt'' w2;
            (t, w4) = setTimeout Reconnect delay w3
        in w4\<lparr> reconnectTimer := Some t \<rparr>)"

subsection \<open>createWSConnection, lines 10-110\<close>

definition wsUrl :: "world \<Rightarrow> string" where
  "wsUrl w =
     (if location_protocol w = ''https:'' then ''wss:'' else ''ws:'')
       @ ''//'' @ location_host w @ ''/ws''"

text \<open>Lines 21-30: the existing socket, if there is one, is closed unless it is CLOSED or CLOSING.\<close>

definition close_existing :: "world \<Rightarrow> world" where
  "close_existing w =
     (case socket w of
        None \<Rightarrow> w
      | Some s \<Rightarrow>
          if socket_state w \<noteq> Some CLOSED \<and> socket_state w \<noteq> Some CLOSING
          then ws_close s w else w)"

text \<open>
  The body of the outer \<open>try\<close>, lines 20-105. \<open>thr\<close> says whether \<open>new WebSocket(wsUrl)\<close>
  throws, which it does for a URL the browser rejects; nothing else in the block can
  throw (the inner \<open>try\<close> around \<open>socket.close()\<close> never sees an exception). The result
  is \<open>Inl\<close> with the exception and the world at the throw: line 32 has run, line 39 has
  not assigned \<open>socket\<close>. Otherwise the new socket is CONNECTING, the timeout is armed and
  the handlers that capture it are installed.
\<close>

definition try_block :: "bool \<Rightarrow> world \<Rightarrow> exn \<times> world + world" where
  "try_block thr w =
     (let w1 = close_existing w;
          w2 = w1\<lparr> isReconnecting := True \<rparr>
      in if thr then Inl (SyntaxError, w2)
         else
           let s = nextSocket w2;
               w3 = w2\<lparr> nextSocket := Suc s, socket := Some s \<rparr>;
               (t, w4) = setTimeout ConnectionTimeout 10000 w3
           in Inr (w4\<lparr> sockets := (sockets w4)
                    (s \<mapsto> \<lparr> readyState = CONNECTING, url = wsUrl w, connectionTimeout = t \<rparr>) \<rparr>))"

text \<open>
  The function itself: the two early returns, then the \<open>try\<close> with its \<open>catch\<close>
  (lines 106-109). \<open>Inl\<close> would be an exception that reaches the caller.
\<close>

definition createWSConnection :: "bool \<Rightarrow> rat \<Rightarrow> bool \<Rightarrow> world \<Rightarrow> exn + world" where
  "createWSConnection force rnd thr w =
     (if isReconnecting w \<and> \<not> force then Inr w
      else if (socket_state w = Some OPEN \<or> socket_state w = Some CONNECTING) \<and> \<not> force then Inr w
      else
        (case try_block thr w of
           Inr w' \<Rightarrow> Inr w'
         | Inl (e, w') \<Rightarrow>
             Inr (scheduleReconnect rnd
                    (console_write ERROR ''Failed to create WebSocket connection:'' w'))))"

text \<open>
  What a caller is left with: the world the call returned, or, had the call thrown, the
  world as it was when the call began.
\<close>

definition returned :: "world \<Rightarrow> exn + world \<Rightarrow> world" where
  "returned w r = (case r of Inl e \<Rightarrow> w | Inr w' \<Rightarrow> w')"

subsection \<open>The timer callbacks\<close>

text \<open>Lines 42-52: the callback reads the module variable \<open>socket\<close>, whichever object it refers to by then.\<close>

definition connectionTimeout_fired :: "rat \<Rightarrow> world \<Rightarrow> world" where
  "connectionTimeout_fired rnd w =
     (case socket w of
        None \<Rightarrow> w
      | Some s \<Rightarrow>
          if socket_state w \<noteq> Some OPEN then
            scheduleReconnect rnd
              (ws_close s
                (console_write WARN ''WebSocket connection timeout - forcing close and reconnect'' w))
          else w)"

text \<open>Lines 131-134.\<close>

definition reconnect_fired :: "rat \<Rightarrow> bool \<Rightarrow> world \<Rightarrow> world" where
  "reconnect_fired rnd thr w =
     (let w1 = console_write LOG ''Attempting to reconnect WebSocket...'' w
      in returned w1 (createWSConnection True rnd thr w1))"

subsection \<open>The socket handlers\<close>

text \<open>Lines 54-65; \<open>c\<close> is the handler's captured \<open>connectionTimeout\<close>.\<close>

definition onopen :: "nat \<Rightarrow> world \<Rightarrow> world" where
  "onopen c w =
     (let w1 = console_write LOG ''WebSocket connection established'' w;
          w2 = clearTimeout c w1;
          w3 = w2\<lparr> reconnectAttempts := 0, isReconnecting := False \<rparr>
      in case reconnectTimer w3 of
           None \<Rightarrow> w3
         | Some t \<Rightarrow> (clearTimeout t w3)\<lparr> reconnectTimer := None \<rparr>)"

text \<open>
  Reading a property of \<open>null\<close> or \<open>undefined\<close> throws a TypeError; of any other value
  without that property it gives \<open>undefined\<close>. Only \<open>type\<close> and \<open>payload\<close> are read, which
  no prototype defines.
\<close>

fun get_prop :: "jsval \<Rightarrow> string \<Rightarrow> exn + jsval" where
  "get_prop JUndefined k = Inl TypeError"
| "get_prop JNull k = Inl TypeError"
| "get_prop (JObject kvs) k = Inr (case map_of kvs k of None \<Rightarrow> JUndefined | Some v \<Rightarrow> v)"
| "get_prop v k = Inr JUndefined"

text \<open>
  \<open>window.dispatchEvent(new CustomEvent(name, { detail: d }))\<close>. A dictionary member
  given as \<open>undefined\<close> counts as absent, and \<open>detail\<close> then has its default, \<open>null\<close>.
  The world records the event by its name and the detail it carries.
\<close>

definition CustomEvent_detail :: "jsval \<Rightarrow> jsval" where
  "CustomEvent_detail d = (if d = JUndefined then JNull else d)"

definition dispatchEvent :: "string \<Rightarrow> jsval \<Rightarrow> world \<Rightarrow> world" where
  "dispatchEvent name d w = w\<lparr> dispatched := dispatched w @ [(name, CustomEvent_detail d)] \<rparr>"

text \<open>
  Lines 67-87. \<open>parsed\<close> is what \<open>JSON.parse(event.data)\<close> gives: \<open>None\<close> when it throws
  a SyntaxError, the parsed value otherwise. The \<open>catch\<close> also takes the TypeError of
  \<open>data.type\<close> when the text is \<open>null\<close>.
\<close>

definition onmessage :: "jsval option \<Rightarrow> world \<Rightarrow> world" where
  "onmessage parsed w =
     (case parsed of
        None \<Rightarrow> console_write ERROR ''Error parsing WebSocket message:'' w
      | Some data \<Rightarrow>
          (case get_prop data ''type'' of
             Inl e \<Rightarrow> console_write ERROR ''Error parsing WebSocket message:'' w
           | Inr ty \<Rightarrow>
               if ty = JString ''dice_roll'' then
                 (case get_prop data ''payload'' of
                    Inl e \<Rightarrow> console_write ERROR ''Error parsing WebSocket message:'' w
                  | Inr p \<Rightarrow> dispatchEvent ''dice_roll_result'' p w)
               else if ty = JString ''campaign_update'' then
                 (case get_prop data ''payload'' of
                    Inl e \<Rightarrow> console_write ERROR ''Error parsing WebSocket message:'' w
                  | Inr p \<Rightarrow> dispatchEvent ''campaign_update'' p w)
               else w))"

text \<open>Lines 89-100.\<close>

definition onclose :: "nat \<Rightarrow> nat \<Rightarrow> rat \<Rightarrow> world \<Rightarrow> world" where
  "onclose c code rnd w =
     (let w1 = clearTimeout c w;
          w2 = console_write LOG ''WebSocket connection closed'' w1
      in if code \<noteq> 1000 then scheduleReconnect rnd w2
         else w2\<lparr> isReconnecting := False, reconnectAttempts := 0 \<rparr>)"

text \<open>Lines 102-105.\<close>

definition onerror :: "world \<Rightarrow> world" where
  "onerror w = console_write ERROR ''WebSocket error:'' w"

subsection \<open>sendWSMessage, lines 137-143\<close>

text \<open>
  \<open>JSON.stringify\<close> throws a TypeError on a BigInt, wherever it sits in the value.
  The frame handed to \<open>socket.send\<close> is recorded as the value that was serialised.
\<close>

fun serializable :: "jsval \<Rightarrow> bool" where
  "serializable (JBigInt n) = False"
| "serializable (JArray xs) = list_all serializable xs"
| "serializable (JObject kvs) = list_all serializable (map snd kvs)"
| "serializable v = True"

definition JSON_stringify :: "jsval \<Rightarrow> exn + jsval" where
  "JSON_stringify v = (if serializable v then Inr v else Inl TypeError)"

definition ws_send :: "nat \<Rightarrow> jsval \<Rightarrow> world \<Rightarrow> world" where
  "ws_send s frame w = w\<lparr> sent := sent w @ [(s, frame)] \<rparr>"

definition sendWSMessage :: "string \<Rightarrow> jsval \<Rightarrow> world \<Rightarrow> exn + world" where
  "sendWSMessage ty payload w =
     (case socket w of
        None \<Rightarrow> Inr (console_write WARN ''WebSocket not connected, cannot send message'' w)
      | Some s \<Rightarrow>
          if socket_state w = Some OPEN then
            (case JSON_stringify (JObject [(''type'', JString ty), (''payload'', payload)]) of
               Inl e \<Rightarrow> Inl e
             | Inr frame \<Rightarrow> Inr (ws_send s frame w))
          else Inr (console_write WARN ''WebSocket not connected, cannot send message'' w))"

text \<open>Lines 146-150.\<close>

definition beforeunload :: "world \<Rightarrow> world" where
  "beforeunload w = (case socket w of None \<Rightarrow> w | Some s \<Rightarrow> ws_close s w)"

subsection \<open>The event loop\<close>

text \<open>
  One turn of the browser's event loop: a call of one of the two exported functions, a
  pending timer firing, or an event on a WebSocket object. The browser changes its own
  state first (the timer leaves the table, the socket's readyState changes), then runs
  the handler. An event the browser cannot deliver (a timer that is not pending, an open
  event on a socket that is not CONNECTING, any event on a CLOSED socket) leaves the
  world as it is. \<open>rnd\<close> and \<open>thr\<close> are what \<open>Math.random()\<close> and \<open>new WebSocket\<close> do
  if the turn reaches them. A close event carries its code; its reason, which the handler
  only logs, is left out. A message event carries what \<open>JSON.parse\<close> makes of its data.
\<close>

datatype event =
    Call_createWSConnection bool
  | Call_sendWSMessage string jsval
  | TimerFires nat
  | SocketOpen nat
  | SocketMessage nat "jsval option"
  | SocketClose nat nat
  | SocketError nat
  | BeforeUnload

fun fire :: "rat \<Rightarrow> bool \<Rightarrow> event \<Rightarrow> world \<Rightarrow> world" where
  "fire rnd thr (Call_createWSConnection force) w = returned w (createWSConnection force rnd thr w)"
| "fire rnd thr (Call_sendWSMessage ty payload) w = returned w (sendWSMessage ty payload w)"
| "fire rnd thr (TimerFires t) w =
     (case timers w t of
        None \<Rightarrow> w
      | Some (cb, ms) \<Rightarrow>
          (case cb of
             ConnectionTimeout \<Rightarrow> connectionTimeout_fired rnd (clearTimeout t w)
           | Reconnect \<Rightarrow> reconnect_fired rnd thr (clearTimeout t w)))"
| "fire rnd thr (SocketOpen s) w =
     (case sockets w s of
        None \<Rightarrow> w
      | Some ws \<Rightarrow>
          if readyState ws = CONNECTING
          then onopen (connectionTimeout ws)
                 (w\<lparr> sockets := (sockets w)(s \<mapsto> ws\<lparr> readyState := OPEN \<rparr>) \<rparr>)
          else w)"
| "fire rnd thr (SocketMessage s parsed) w =
     (case sockets w s of
        None \<Rightarrow> w
      | Some ws \<Rightarrow>
          if readyState ws = OPEN \<or> readyState ws = CLOSING then onmessage parsed w else w)"
| "fire rnd thr (SocketClose s code) w =
     (case sockets w s of
        None \<Rightarrow> w
      | Some ws \<Rightarrow>
          if readyState ws \<noteq> CLOSED
          then onclose (connectionTimeout ws) code rnd
                 (w\<lparr> sockets := (sockets w)(s \<mapsto> ws\<lparr> readyState := CLOSED \<rparr>) \<rparr>)
          else w)"
| "fire rnd thr (SocketError s) w =
     (case sockets w s of
        None \<Rightarrow> w
      | Some ws \<Rightarrow> if readyState ws \<noteq> CLOSED then onerror w else w)"
| "fire rnd thr BeforeUnload w = beforeunload w"

fun run :: "(rat \<times> bool \<times> event) list \<Rightarrow> world \<Rightarrow> world" where
  "run [] w = w"
| "run ((rnd, thr, e) # es) w = run es (fire rnd thr e w)"

inductive reachable :: "world \<Rightarrow> bool" where
  start: "reachable (initial proto host)"
| turn: "reachable w \<Longrightarrow> reachable (fire rnd thr e w)"

subsection \<open>Observations on a world\<close>

text \<open>The ids of the pending timers that \<open>scheduleReconnect\<close> armed.\<close>

definition reconnect_timers :: "world \<Rightarrow> nat set" where
  "reconnect_timers w = {t. \<exists>ms. timers w t = Some (Reconnect, ms)}"

text \<open>
  The two events whose handlers assign 0 to \<open>reconnectAttempts\<close>: an open event
  (line 57) and a close event with code 1000 (line 98).
\<close>

fun resets :: "event \<Rightarrow> bool" where
  "resets (SocketOpen s) = True"
| "resets (SocketClose s code) = (code = 1000)"
| "resets e = False"

subsection \<open>The notifications a message calls for\<close>

text \<open>
  What the specification says a message gives rise to, in its words: a message that
  parses with type \<open>dice_roll\<close> gives one notification \<open>dice_roll_result\<close> carrying the
  payload, one with type \<open>campaign_update\<close> gives one notification \<open>campaign_update\<close>,
  anything else gives none. \<open>field\<close> reads a property of a parsed object (\<open>undefined\<close>
  when it is absent or the value is no object); \<open>payload_of\<close> is what a notification
  carries: the message's payload, and \<open>null\<close> for a message that has none.
\<close>

definition field :: "jsval \<Rightarrow> string \<Rightarrow> jsval" where
  "field data k =
     (case data of
        JObject kvs \<Rightarrow> (case map_of kvs k of None \<Rightarrow> JUndefined | Some v \<Rightarrow> v)
      | _ \<Rightarrow> JUndefined)"

definition payload_of :: "jsval \<Rightarrow> jsval" where
  "payload_of data =
     (if field data ''payload'' = JUndefined then JNull else field data ''payload'')"

definition notifications :: "jsval option \<Rightarrow> (string \<times> jsval) list" where
  "notifications parsed =
     (case parsed of
        None \<Rightarrow> []
      | Some data \<Rightarrow>
          if field data ''type'' = JString ''dice_roll''
          then [(''dice_roll_result'', payload_of data)]
          else if field data ''type'' = JString ''campaign_update''
          then [(''campaign_update'', payload_of data)]
          else [])"

text \<open>
  The messages that end in the handler's \<open>catch\<close>: text that is no JSON, and the JSON
  text \<open>null\<close>, whose property \<open>type\<close> cannot be read.
\<close>

definition parse_errors :: "jsval option \<Rightarrow> (level \<times> string) list" where
  "parse_errors parsed =
     (if parsed = None \<or> parsed = Some JNull \<or> parsed = Some JUndefined
      then [(ERROR, ''Error parsing WebSocket message:'')] else [])"

subsection \<open>A run of failed attempts\<close>

text \<open>
  The world of a page at \<open>https://example.org\<close> after the first call of
  \<open>createWSConnection\<close> and \<open>k\<close> failed attempts in a row: each socket closed with code
  1006 before it opened, a reconnect was scheduled (with \<open>Math.random()\<close> giving 0) and
  the reconnect timer fired. Socket \<open>k\<close> is CONNECTING and its timeout is pending.
  \<open>failures k\<close> is the sequence of events that leads there.
\<close>

primrec failure_log :: "nat \<Rightarrow> (level \<times> string) list" where
  "failure_log 0 = []"
| "failure_log (Suc k) =
     failure_log k @ [(LOG, ''WebSocket connection closed''),
                      (LOG, ''Scheduling WebSocket reconnect attempt''),
                      (LOG, ''Attempting to reconnect WebSocket...'')]"

definition failed :: "nat \<Rightarrow> world" where
  "failed k =
     \<lparr> socket = Some k, reconnectAttempts = k,
       reconnectTimer = (if k = 0 then None else Some (2 * k)), isReconnecting = True,
       sockets = (\<lambda>s. if s < k
                       then Some \<lparr> readyState = CLOSED, url = ''wss://example.org/ws'',
                                   connectionTimeout = 2 * s + 1 \<rparr>
                       else if s = k
                       then Some \<lparr> readyState = CONNECTING, url = ''wss://example.org/ws'',
                                   connectionTimeout = 2 * k + 1 \<rparr>
                       else None),
       nextSocket = Suc k,
       timers = [2 * k + 1 \<mapsto> (ConnectionTimeout, 10000)], nextTimer = 2 * k + 2,
       location_protocol = ''https:'', location_host = ''example.org'',
       console = failure_log k,
       dispatched = [], sent = [] \<rparr>"

definition fail_round :: "nat \<Rightarrow> (rat \<times> bool \<times> event) list" where
  "fail_round k = [(0, False, SocketClose k 1006), (0, False, TimerFires (2 * k + 2))]"

definition failures :: "nat \<Rightarrow> (rat \<times> bool \<times> event) list" where
  "failures k = (0, False, Call_createWSConnection False) # concat (map fail_round [0..<k])"

text \<open>
  The world of \<open>failed 10\<close> once its last socket has closed as well and the timeout of
  that socket is cancelled: ten reconnects were scheduled, every socket is CLOSED, no
  timer is pending.
\<close>

definition all_closed :: world where
  "all_closed =
     (failed 10)
       \<lparr> sockets := (\<lambda>s. if s \<le> 10
                            then Some \<lparr> readyState = CLOSED, url = ''wss://example.org/ws'',
                                        connectionTimeout = 2 * s + 1 \<rparr>
                            else None),
          timers := Map.empty \<rparr>"

subsection \<open>An idle manager\<close>

text \<open>The external calls of \<open>createWSConnection\<close> among the events.\<close>

fun is_connect :: "event \<Rightarrow> bool" where
  "is_connect (Call_createWSConnection force) = True"
| "is_connect e = False"

text \<open>
  Nothing is left that the browser could deliver: no timer is pending, every socket is
  CLOSED, and \<open>isReconnecting\<close> is cleared.
\<close>

definition quiet :: "world \<Rightarrow> bool" where
  "quiet w = (timers w = Map.empty \<and> \<not> isReconnecting w
              \<and> (\<forall>s ws. sockets w s = Some ws \<longrightarrow> readyState ws = CLOSED))"

subsection \<open>The reconnect timer and its handle\<close>

text \<open>Every pending reconnect timer is the one whose id \<open>reconnectTimer\<close> holds.\<close>

definition tracked :: "world \<Rightarrow> bool" where
  "tracked w = (\<forall>t ms. timers w t = Some (Reconnect, ms) \<longrightarrow> reconnectTimer w = Some t)"

section \<open>Properties\<close>

subsection \<open>Rounding to a double\<close>

lemma pow2_split: "(2::rat) powi (a + b) = 2 powi a * 2 powi b"
  by (rule power_int_add) simp

lemma pow2_less_imp: "(2::rat) powi m < 2 powi n \<Longrightarrow> m < n"
proof (rule ccontr)
  assume l: "(2::rat) powi m < 2 powi n" and "\<not> m < n"
  then have "n \<le> m" by simp
  then have "(2::rat) powi n \<le> 2 powi m" by (intro power_int_increasing) simp_all
  with l show False by simp
qed

lemma bitlen_rat_bounds:
  assumes "0 < (a::int)"
  shows "(2::rat) powi (bitlen a - 1) \<le> of_int a" and "(of_int a :: rat) < 2 powi bitlen a"
proof -
  from assms have l: "1 \<le> bitlen a" by (auto simp: bitlen_alt_def)
  from bitlen_bounds [OF assms]
  have lo: "2 ^ nat (bitlen a - 1) \<le> a" and hi: "a < 2 ^ nat (bitlen a)" by simp_all
  have "(2::rat) ^ nat (bitlen a - 1) \<le> of_int a"
    using of_int_le_iff [of "2 ^ nat (bitlen a - 1)" a, where ?'a = rat] lo by simp
  then show "(2::rat) powi (bitlen a - 1) \<le> of_int a"
    using l by (simp add: power_int_def)
  have "(of_int a :: rat) < 2 ^ nat (bitlen a)"
    using of_int_less_iff [of a "2 ^ nat (bitlen a)", where ?'a = rat] hi by simp
  then show "(of_int a :: rat) < 2 powi bitlen a"
    using l by (simp add: power_int_def)
qed

lemma expo_bounds:
  assumes "0 < x"
  shows "2 powi expo x \<le> x" and "x < 2 powi (expo x + 1)"
proof -
  obtain a b where q: "quotient_of x = (a, b)" by (cases "quotient_of x")
  then have x: "x = of_int a / of_int b" and b: "0 < b"
    by (simp_all add: quotient_of_div quotient_of_denom_pos)
  with assms have a: "0 < a"
    by (simp add: zero_less_divide_iff)
  let ?d = "bitlen a - bitlen b"
  have xb: "x * of_int b = of_int a" using x b by simp
  have bpos: "(0::rat) < of_int b" using b by simp
  have "x * of_int b < 2 powi bitlen a"
    using bitlen_rat_bounds(2) [OF a] xb by simp
  also have "(2::rat) powi bitlen a = 2 powi (?d + 1) * 2 powi (bitlen b - 1)"
    using pow2_split [of "?d + 1" "bitlen b - 1"] by simp
  also have "\<dots> \<le> 2 powi (?d + 1) * of_int b"
    using bitlen_rat_bounds(1) [OF b] by (intro mult_left_mono) simp_all
  finally have hi: "x < 2 powi (?d + 1)"
    using bpos by simp
  have "(2::rat) powi (?d - 1) * of_int b \<le> 2 powi (?d - 1) * 2 powi bitlen b"
    using bitlen_rat_bounds(2) [OF b] by (intro mult_left_mono) simp_all
  also have "\<dots> = 2 powi (bitlen a - 1)"
    using pow2_split [of "?d - 1" "bitlen b"] by simp
  also have "\<dots> \<le> x * of_int b"
    using bitlen_rat_bounds(1) [OF a] xb by simp
  finally have lo: "2 powi (?d - 1) \<le> x"
    using bpos by simp
  have e: "expo x = (if 2 powi ?d \<le> x then ?d else ?d - 1)"
    by (simp add: expo_def q Let_def)
  show "2 powi expo x \<le> x" using lo by (simp add: e)
  show "x < 2 powi (expo x + 1)" using hi by (auto simp: e)
qed

lemma expo_unique:
  assumes "0 < x" and "2 powi e \<le> x" and "x < 2 powi (e + 1)"
  shows "expo x = e"
proof -
  from expo_bounds [OF assms(1)] assms(2,3)
  have "(2::rat) powi expo x < 2 powi (e + 1)" and "(2::rat) powi e < 2 powi (expo x + 1)"
    by simp_all
  then have "expo x < e + 1" and "e < expo x + 1"
    by (auto dest: pow2_less_imp)
  then show ?thesis by simp
qed

lemma expo_mono:
  assumes "0 < x" and "x \<le> y"
  shows "expo x \<le> expo y"
proof -
  from assms have y: "0 < y" by simp
  from expo_bounds(1) [OF assms(1)] expo_bounds(2) [OF y] assms(2)
  have "(2::rat) powi expo x < 2 powi (expo y + 1)" by simp
  then have "expo x < expo y + 1" by (rule pow2_less_imp)
  then show ?thesis by simp
qed

lemma round_even_int [simp]: "round_even (of_int k) = k"
  by (simp add: round_even_def)

lemma round_even_floor: "\<lfloor>q\<rfloor> \<le> round_even q" "round_even q \<le> \<lfloor>q\<rfloor> + 1"
  by (simp_all add: round_even_def Let_def)

lemma round_even_mono:
  assumes "q \<le> q'"
  shows "round_even q \<le> round_even q'"
proof (cases "\<lfloor>q\<rfloor> = \<lfloor>q'\<rfloor>")
  case True
  with assms show ?thesis
    by (auto simp: round_even_def Let_def)
next
  case False
  with assms have "\<lfloor>q\<rfloor> < \<lfloor>q'\<rfloor>"
    using floor_mono [OF assms] by simp
  with round_even_floor(2) [of q] round_even_floor(1) [of q'] show ?thesis by simp
qed

lemma round_even_ge: "of_int k \<le> q \<Longrightarrow> k \<le> round_even q"
  using round_even_mono [of "of_int k" q] by simp

lemma round_even_le: "q \<le> of_int k \<Longrightarrow> round_even q \<le> k"
  using round_even_mono [of q "of_int k"] by simp

lemma ulp_pos [simp]: "0 < ulp x"
  by (simp add: ulp_def)

lemma ulp_nonneg [simp]: "0 \<le> ulp x"
  using ulp_pos [of x] by (rule less_imp_le)


lemma to_double_pos:
  "0 < x \<Longrightarrow> to_double x = of_int (round_even (x / ulp x)) * ulp x"
  by (simp add: to_double_def)

text \<open>The value of a positive x stays within the binade of x.\<close>

lemma to_double_binade:
  assumes "0 < x"
  defines "E \<equiv> max (expo x) (- 1022)"
  shows "to_double x \<le> 2 powi (E + 1)"
    and "- 1022 < E \<Longrightarrow> 2 powi E \<le> to_double x"
    and "0 \<le> to_double x"
proof -
  have u: "ulp x = 2 powi (E - 52)"
    using assms(1) by (simp add: ulp_def E_def)
  have up: "(0::rat) < 2 powi (E - 52)" by simp
  have "x < 2 powi (expo x + 1)" by (rule expo_bounds(2) [OF assms(1)])
  also have "(2::rat) powi (expo x + 1) \<le> 2 powi (E + 1)"
    by (intro power_int_increasing) (simp_all add: E_def)
  finally have "x < 2 powi (E + 1)" .
  also have "(2::rat) powi (E + 1) = 2 powi 53 * 2 powi (E - 52)"
    using pow2_split [of 53 "E - 52"] by (simp add: add.commute)
  finally have "x / ulp x < 2 powi 53"
    using up by (simp add: u pos_divide_less_eq)
  then have "x / ulp x \<le> of_int (2 ^ 53)" by simp
  then have "round_even (x / ulp x) \<le> 2 ^ 53" by (rule round_even_le)
  then have "(of_int (round_even (x / ulp x)) :: rat) \<le> of_int (2 ^ 53)"
    by (simp only: of_int_le_iff)
  then have "of_int (round_even (x / ulp x)) * ulp x \<le> 2 powi 53 * 2 powi (E - 52)"
    unfolding u by (intro mult_right_mono) simp_all
  also have "\<dots> = 2 powi (E + 1)"
    using pow2_split [of 53 "E - 52"] by (simp add: add.commute)
  finally show "to_double x \<le> 2 powi (E + 1)"
    by (simp add: to_double_pos [OF assms(1)])
  have "(0::rat) \<le> x / ulp x" using assms(1) by simp
  then have "of_int 0 \<le> x / ulp x" by simp
  then have "0 \<le> round_even (x / ulp x)" by (rule round_even_ge)
  then show "0 \<le> to_double x"
    by (simp add: to_double_pos [OF assms(1)])
  assume "- 1022 < E"
  then have "E = expo x" by (auto simp: E_def max_def split: if_splits)
  then have "2 powi E \<le> x" using expo_bounds(1) [OF assms(1)] by simp
  moreover have "(2::rat) powi E = 2 powi 52 * 2 powi (E - 52)"
    using pow2_split [of 52 "E - 52"] by simp
  ultimately have "2 powi 52 \<le> x / ulp x"
    using up by (simp add: u pos_le_divide_eq)
  then have "of_int (2 ^ 52) \<le> x / ulp x" by simp
  then have "2 ^ 52 \<le> round_even (x / ulp x)" by (rule round_even_ge)
  then have "(of_int (2 ^ 52) :: rat) \<le> of_int (round_even (x / ulp x))"
    by (simp only: of_int_le_iff)
  then have "2 powi 52 * 2 powi (E - 52) \<le> of_int (round_even (x / ulp x)) * ulp x"
    unfolding u by (intro mult_right_mono) simp_all
  moreover have "(2::rat) powi 52 * 2 powi (E - 52) = 2 powi E"
    using pow2_split [of 52 "E - 52"] by simp
  ultimately show "2 powi E \<le> to_double x"
    by (simp add: to_double_pos [OF assms(1)])
qed

lemma to_double_mono:
  assumes "0 \<le> x" and "x \<le> y"
  shows "to_double x \<le> to_double y"
proof (cases "x = 0")
  case True
  show ?thesis
  proof (cases "y = 0")
    case True
    with \<open>x = 0\<close> show ?thesis by simp
  next
    case False
    with assms True have "0 < y" by simp
    from to_double_binade(3) [OF this] True show ?thesis by (simp add: to_double_def)
  qed
next
  case False
  with assms have x: "0 < x" and y: "0 < y" by simp_all
  define Ex where "Ex = max (expo x) (- 1022)"
  define Ey where "Ey = max (expo y) (- 1022)"
  from expo_mono [OF x assms(2)] have le: "Ex \<le> Ey" by (simp add: Ex_def Ey_def)
  have m: "- 1022 \<le> Ex" by (simp add: Ex_def)
  show ?thesis
  proof (cases "Ex = Ey")
    case True
    then have u: "ulp x = ulp y" using x y by (simp add: ulp_def Ex_def Ey_def)
    have "x / ulp y \<le> y / ulp y"
      using assms(2) by (intro divide_right_mono) simp_all
    then have "round_even (x / ulp y) \<le> round_even (y / ulp y)" by (rule round_even_mono)
    then have "(of_int (round_even (x / ulp y)) :: rat) \<le> of_int (round_even (y / ulp y))"
      by (simp only: of_int_le_iff)
    then have "of_int (round_even (x / ulp y)) * ulp y \<le> of_int (round_even (y / ulp y)) * ulp y"
      by (intro mult_right_mono) simp_all
    then show ?thesis
      by (simp add: to_double_pos [OF x] to_double_pos [OF y] u)
  next
    case False
    with le have lt: "Ex < Ey" by simp
    with m have "- 1022 < Ey" by simp
    from to_double_binade(2) [OF y] this have "2 powi Ey \<le> to_double y"
      by (simp add: Ey_def)
    moreover have "to_double x \<le> 2 powi (Ex + 1)"
      using to_double_binade(1) [OF x] by (simp add: Ex_def)
    moreover have "(2::rat) powi (Ex + 1) \<le> 2 powi Ey"
      using lt by (intro power_int_increasing) simp_all
    ultimately show ?thesis by simp
  qed
qed

lemma to_double_0 [simp]: "to_double 0 = 0"
  by (simp add: to_double_def)

text \<open>Below 65536 every multiple of 1/512 is a double.\<close>

lemma to_double_exact:
  assumes "0 \<le> x" and "x < 65536" and "x = of_int k / 512"
  shows "to_double x = x"
proof (cases "x = 0")
  case True
  then show ?thesis by simp
next
  case False
  with assms(1) have x: "0 < x" by simp
  define E where "E = max (expo x) (- 1022)"
  have "(2::rat) powi expo x \<le> x" by (rule expo_bounds(1) [OF x])
  also have "x < 2 powi 16" using assms(2) by simp
  finally have "expo x < 16" by (rule pow2_less_imp)
  then have E: "E \<le> 15" "- 1022 \<le> E" by (simp_all add: E_def)
  have u: "ulp x = 2 powi (E - 52)"
    using x by (simp add: ulp_def E_def)
  have "(1::rat) = 2 powi (52 - E) * 2 powi (E - 52)"
    using pow2_split [of "52 - E" "E - 52"] by simp
  then have "x / ulp x = x * 2 powi (52 - E)"
    unfolding u by (simp add: field_simps)
  also have "(2::rat) powi (52 - E) = 2 powi 9 * 2 powi (43 - E)"
    using pow2_split [of 9 "43 - E"] by simp
  also have "x * (2 powi 9 * 2 powi (43 - E)) = of_int k * 2 powi (43 - E)"
    using assms(3) by simp
  also have "(2::rat) powi (43 - E) = of_int (2 ^ nat (43 - E))"
    using E by (simp add: power_int_def)
  also have "of_int k * (of_int (2 ^ nat (43 - E)) :: rat) = of_int (k * 2 ^ nat (43 - E))"
    by simp
  finally have "x / ulp x = of_int (k * 2 ^ nat (43 - E))" .
  then have "round_even (x / ulp x) = k * 2 ^ nat (43 - E)"
    by (simp only: round_even_int)
  then have "of_int (round_even (x / ulp x)) = x / ulp x"
    using \<open>x / ulp x = of_int (k * 2 ^ nat (43 - E))\<close> by simp
  moreover have "ulp x \<noteq> 0" by (simp add: ulp_def)
  ultimately show ?thesis
    by (simp add: to_double_pos [OF x])
qed

lemma pow_le9: "n \<le> 9 \<Longrightarrow> (3 / 2 :: rat) ^ n \<le> 19683 / 512"
proof -
  assume "n \<le> 9"
  then have "(3 / 2 :: rat) ^ n \<le> (3 / 2) ^ 9"
    by (intro power_increasing) simp_all
  also have "(3 / 2 :: rat) ^ 9 = 19683 / 512"
    by (simp add: power_divide)
  finally show ?thesis .
qed

lemma pow_512:
  assumes "n \<le> 9"
  shows "(3 / 2 :: rat) ^ n = of_int (3 ^ n * 2 ^ (9 - n)) / 512"
proof -
  have "(2::rat) ^ 9 = 2 ^ n * 2 ^ (9 - n)"
    using assms by (simp add: power_add [symmetric])
  then have "(3 / 2 :: rat) ^ n * 512 = (3 / 2) ^ n * (2 ^ n * 2 ^ (9 - n))" by simp
  also have "\<dots> = 3 ^ n * 2 ^ (9 - n)" by (simp add: power_divide)
  finally show ?thesis by simp
qed

lemma to_double_pow: "n \<le> 9 \<Longrightarrow> to_double ((3 / 2) ^ n) = (3 / 2) ^ n"
  using pow_le9 [of n] by (intro to_double_exact [OF _ _ pow_512]) simp_all

lemma to_double_grid:
  assumes "n \<le> 9" and "0 \<le> m" and "m \<le> 1000"
  shows "to_double (1000 * (3 / 2) ^ n + of_int m) = 1000 * (3 / 2) ^ n + of_int m"
proof (rule to_double_exact)
  show "0 \<le> 1000 * (3 / 2 :: rat) ^ n + of_int m" using assms(2) by simp
  have "1000 * (3 / 2 :: rat) ^ n \<le> 1000 * (19683 / 512)"
    using pow_le9 [OF assms(1)] by (intro mult_left_mono) simp_all
  moreover have "(of_int m :: rat) \<le> 1000" using assms(3) by simp
  ultimately show "1000 * (3 / 2 :: rat) ^ n + of_int m < 65536" by simp
  show "1000 * (3 / 2 :: rat) ^ n + of_int m
          = of_int (1000 * (3 ^ n * 2 ^ (9 - n)) + 512 * m) / 512"
    by (simp add: pow_512 [OF assms(1)] add_divide_distrib)
qed

lemma to_double_int:
  assumes "0 \<le> m" and "m \<le> 1000"
  shows "to_double (of_int m) = of_int m"
  using assms by (intro to_double_exact [where k = "512 * m"]) simp_all

subsection \<open>The backoff delay\<close>

lemma pow_le8: "n \<le> 8 \<Longrightarrow> (3 / 2 :: rat) ^ n \<le> 6561 / 256"
proof -
  assume "n \<le> 8"
  then have "(3 / 2 :: rat) ^ n \<le> (3 / 2) ^ 8"
    by (intro power_increasing) simp_all
  also have "(3 / 2 :: rat) ^ 8 = 6561 / 256"
    by (simp add: power_divide)
  finally show ?thesis .
qed

lemma pow_9: "(3 / 2 :: rat) ^ 9 = 19683 / 512"
  by (simp add: power_divide)

lemma to_double_base: "n \<le> 9 \<Longrightarrow> to_double (1000 * (3 / 2) ^ n) = 1000 * (3 / 2) ^ n"
  using to_double_grid [of n 0] by simp

lemma jitter_bounds:
  assumes "0 \<le> rnd" and "rnd \<le> 1"
  shows "0 \<le> to_double (rnd * 1000)" and "to_double (rnd * 1000) \<le> 1000"
proof -
  have "to_double 0 \<le> to_double (rnd * 1000)"
    using assms(1) by (intro to_double_mono) simp_all
  then show "0 \<le> to_double (rnd * 1000)" by simp
  have "to_double (rnd * 1000) \<le> to_double (of_int 1000)"
    using assms by (intro to_double_mono) simp_all
  then show "to_double (rnd * 1000) \<le> 1000"
    using to_double_int [of 1000] by simp
qed

lemma sum_bounds:
  assumes "n \<le> 9" and "0 \<le> rnd" and "rnd \<le> 1"
  defines "s \<equiv> to_double (to_double (1000 * to_double ((3 / 2) ^ n)) + to_double (rnd * 1000))"
  shows "1000 * (3 / 2) ^ n \<le> s" and "s \<le> 1000 * (3 / 2) ^ n + 1000"
proof -
  let ?b = "1000 * (3 / 2 :: rat) ^ n" and ?j = "to_double (rnd * 1000)"
  have s: "s = to_double (?b + ?j)"
    by (simp add: s_def to_double_pow [OF assms(1)] to_double_base [OF assms(1)])
  note j = jitter_bounds [OF assms(2,3)]
  have "to_double ?b \<le> to_double (?b + ?j)"
    using j(1) by (intro to_double_mono) simp_all
  then show "?b \<le> s" by (simp add: s to_double_base [OF assms(1)])
  have "to_double (?b + ?j) \<le> to_double (?b + of_int 1000)"
    using j by (intro to_double_mono) simp_all
  then show "s \<le> ?b + 1000"
    using to_double_grid [OF assms(1), of 1000] by (simp add: s)
qed

lemma reconnectDelay_grid:
  assumes "n \<le> 9" and "rnd * 1000 = of_int m" and "0 \<le> m" and "m \<le> 1000"
  shows "reconnectDelay n rnd = min (1000 * (3 / 2) ^ n + of_int m) 30000"
  by (simp add: reconnectDelay_def to_double_pow [OF assms(1)] to_double_base [OF assms(1)]
        assms(2) to_double_int [OF assms(3,4)] to_double_grid [OF assms(1,3,4)])

text \<open>
  The upper end of the interval is reached: with \<open>Math.random()\<close> at its largest value
  the jitter is the double just below 1000, and the sum is a tie that rounds up.
\<close>

lemma reconnectDelay_attains_upper: "reconnectDelay 0 (1 - 1 / 2 ^ 53) = 2000"
  by code_simp

lemma delay_values:
  "reconnectDelay 0 0 = 1000"
  "reconnectDelay 0 (1 / 2) = 1500"
  "reconnectDelay 1 (1 / 2) = 2000"
  "reconnectDelay (Suc 0) (1 / 2) = 2000"
  "reconnectDelay 9 0 = 30000"
  "reconnectDelay 9 (1 / 2) = 30000"
  using reconnectDelay_grid [of 0 0 0] reconnectDelay_grid [of 0 "1 / 2" 500]
    reconnectDelay_grid [of 1 "1 / 2" 500] reconnectDelay_grid [of 9 0 0]
    reconnectDelay_grid [of 9 "1 / 2" 500]
  by (simp_all add: power_divide)

lemma scheduleReconnect_arms:
  assumes "reconnectAttempts w < maxReconnectAttempts"
  shows "timers (scheduleReconnect rnd w) (nextTimer w)
           = Some (Reconnect, reconnectDelay (reconnectAttempts w) rnd)"
  using assms
  by (simp add: scheduleReconnect_def setTimeout_def clearTimeout_def console_write_def
        split: option.splits)

text \<open>
  C1. With the counter at \<open>n < 10\<close> and \<open>Math.random()\<close> in \<open>[0, 1)\<close>, the timer that
  \<open>scheduleReconnect\<close> arms has the delay line 126 computes in doubles. It lies between
  \<open>1000 * 1.5 ^ n\<close> and \<open>1000 * 1.5 ^ n + 1000\<close>, both capped at 30000. Up to \<open>n = 8\<close> the
  cap is never reached and the delay is in the closed interval itself; at \<open>n = 9\<close> the
  cap applies and the delay is exactly 30000. For \<open>n = 0\<close> it is in \<open>[1000, 2000]\<close>.
\<close>

theorem scheduleReconnect_delay:
  assumes "reconnectAttempts w = n" and "n < 10" and "0 \<le> rnd" and "rnd < 1"
  shows "timers (scheduleReconnect rnd w) (nextTimer w) = Some (Reconnect, reconnectDelay n rnd)
       \<and> min (1000 * (3 / 2) ^ n) 30000 \<le> reconnectDelay n rnd
       \<and> reconnectDelay n rnd \<le> min (1000 * (3 / 2) ^ n + 1000) 30000
       \<and> (if n \<le> 8
          then 1000 * (3 / 2) ^ n \<le> reconnectDelay n rnd
             \<and> reconnectDelay n rnd \<le> 1000 * (3 / 2) ^ n + 1000
          else reconnectDelay n rnd = 30000)
       \<and> 1000 \<le> reconnectDelay 0 rnd \<and> reconnectDelay 0 rnd \<le> 2000
       \<and> reconnectDelay 9 rnd = 30000"
proof -
  from assms(2) have n: "n \<le> 9" by simp
  from assms(4) have r: "rnd \<le> 1" by simp
  have arm: "timers (scheduleReconnect rnd w) (nextTimer w) = Some (Reconnect, reconnectDelay n rnd)"
    using scheduleReconnect_arms [of w rnd] assms(1,2) by (simp add: maxReconnectAttempts_def)
  note s = sum_bounds [OF n assms(3) r]
  have lo: "min (1000 * (3 / 2) ^ n) 30000 \<le> reconnectDelay n rnd"
    using s(1) by (simp add: reconnectDelay_def min_def)
  have hi: "reconnectDelay n rnd \<le> min (1000 * (3 / 2) ^ n + 1000) 30000"
    using s(2) by (simp add: reconnectDelay_def min_def)
  have nine: "reconnectDelay 9 rnd = 30000"
    using sum_bounds(1) [of 9 rnd] assms(3) r by (simp add: reconnectDelay_def min_def pow_9)
  have split: "if n \<le> 8
          then 1000 * (3 / 2) ^ n \<le> reconnectDelay n rnd
             \<and> reconnectDelay n rnd \<le> 1000 * (3 / 2) ^ n + 1000
          else reconnectDelay n rnd = 30000"
  proof (cases "n \<le> 8")
    case True
    from pow_le8 [OF True] have "1000 * (3 / 2 :: rat) ^ n + 1000 \<le> 30000" by simp
    with s True show ?thesis by (simp add: reconnectDelay_def min_def)
  next
    case False
    with assms(2) have "n = 9" by simp
    with nine False show ?thesis by simp
  qed
  have zero: "1000 \<le> reconnectDelay 0 rnd \<and> reconnectDelay 0 rnd \<le> 2000"
    using sum_bounds [of 0 rnd] assms(3) r by (simp add: reconnectDelay_def min_def)
  from arm lo hi split zero nine show ?thesis by blast
qed

theorem scheduleReconnect_delay_witness:
  "reconnectAttempts (initial ''https:'' ''example.org'') = 0 \<and> (0::nat) < 10
     \<and> (0::rat) \<le> 1 / 2 \<and> (1 / 2 :: rat) < 1
     \<and> timers (scheduleReconnect (1 / 2) (initial ''https:'' ''example.org'')) 1
          = Some (Reconnect, 1500)
     \<and> reconnectDelay 0 (1 / 2) = 1500
     \<and> reconnectDelay 9 (1 / 2) = 30000"
  using scheduleReconnect_delay [of "initial ''https:'' ''example.org''" 0 "1 / 2"]
  by (simp add: initial_def delay_values)

subsection \<open>Single events with the counter at the maximum\<close>

lemma scheduleReconnect_at_max:
  "maxReconnectAttempts \<le> reconnectAttempts w \<Longrightarrow>
   scheduleReconnect rnd w =
     w\<lparr> console := console w @ [(ERROR, ''Maximum reconnection attempts reached. Giving up.'')],
        isReconnecting := False \<rparr>"
  by (simp add: scheduleReconnect_def console_write_def)

lemma reconnect_timers_update [simp]:
  "reconnect_timers (w\<lparr> console := c \<rparr>) = reconnect_timers w"
  "reconnect_timers (w\<lparr> isReconnecting := b \<rparr>) = reconnect_timers w"
  "reconnect_timers (w\<lparr> sockets := ss \<rparr>) = reconnect_timers w"
  "reconnect_timers (w\<lparr> socket := so \<rparr>) = reconnect_timers w"
  "reconnect_timers (w\<lparr> nextSocket := n \<rparr>) = reconnect_timers w"
  "reconnect_timers (w\<lparr> nextTimer := n \<rparr>) = reconnect_timers w"
  "reconnect_timers (w\<lparr> reconnectAttempts := n \<rparr>) = reconnect_timers w"
  "reconnect_timers (w\<lparr> reconnectTimer := rt \<rparr>) = reconnect_timers w"
  "reconnect_timers (w\<lparr> dispatched := d \<rparr>) = reconnect_timers w"
  "reconnect_timers (w\<lparr> sent := sn \<rparr>) = reconnect_timers w"
  by (simp_all add: reconnect_timers_def)

lemma ws_close_fields [simp]:
  "reconnectAttempts (ws_close s w) = reconnectAttempts w"
  "timers (ws_close s w) = timers w"
  "reconnect_timers (ws_close s w) = reconnect_timers w"
  by (simp_all add: ws_close_def reconnect_timers_def split: option.splits)

lemma console_write_fields [simp]:
  "reconnectAttempts (console_write l m w) = reconnectAttempts w"
  "timers (console_write l m w) = timers w"
  "reconnect_timers (console_write l m w) = reconnect_timers w"
  by (simp_all add: console_write_def reconnect_timers_def)

lemma clearTimeout_fields [simp]:
  "reconnectAttempts (clearTimeout t w) = reconnectAttempts w"
  "reconnect_timers (clearTimeout t w) \<subseteq> reconnect_timers w"
  by (auto simp add: clearTimeout_def reconnect_timers_def)

lemma try_block_fields:
  "try_block thr w = Inr w' \<Longrightarrow>
     reconnectAttempts w' = reconnectAttempts w \<and> reconnect_timers w' \<subseteq> reconnect_timers w"
  "try_block thr w = Inl (e, w') \<Longrightarrow>
     reconnectAttempts w' = reconnectAttempts w \<and> timers w' = timers w"
  by (auto simp: try_block_def close_existing_def Let_def setTimeout_def reconnect_timers_def
        ws_close_def split: option.splits if_splits)

lemma createWSConnection_at_max:
  assumes "maxReconnectAttempts \<le> reconnectAttempts w"
  shows "reconnectAttempts (returned w0 (createWSConnection force rnd thr w)) = reconnectAttempts w
       \<and> reconnect_timers (returned w0 (createWSConnection force rnd thr w)) \<subseteq> reconnect_timers w"
proof (cases "try_block thr w")
  case (Inl p)
  obtain e w' where p: "p = (e, w')" by (cases p)
  from try_block_fields(2) [of thr w e w'] Inl p
  have f: "reconnectAttempts w' = reconnectAttempts w" and t: "timers w' = timers w" by simp_all
  from f assms
  have "maxReconnectAttempts
          \<le> reconnectAttempts (console_write ERROR ''Failed to create WebSocket connection:'' w')"
    by simp
  from scheduleReconnect_at_max [OF this] Inl p f t show ?thesis
    by (simp add: createWSConnection_def returned_def reconnect_timers_def)
next
  case (Inr w')
  from try_block_fields(1) [OF Inr] Inr show ?thesis
    by (simp add: createWSConnection_def returned_def)
qed

lemma fire_at_max:
  assumes "maxReconnectAttempts \<le> reconnectAttempts w" and "\<not> resets e"
  shows "reconnectAttempts (fire rnd thr e w) = reconnectAttempts w
       \<and> reconnect_timers (fire rnd thr e w) \<subseteq> reconnect_timers w"
proof (cases e)
  case (Call_createWSConnection force)
  then show ?thesis using createWSConnection_at_max [OF assms(1)] by simp
next
  case (Call_sendWSMessage ty p)
  then show ?thesis
    by (auto simp: sendWSMessage_def ws_send_def JSON_stringify_def reconnect_timers_def
          returned_def split: option.splits sum.splits)
next
  case (TimerFires t)
  have c: "maxReconnectAttempts \<le> reconnectAttempts (clearTimeout t w)"
    using assms(1) by simp
  show ?thesis
  proof (cases "timers w t")
    case None
    with TimerFires show ?thesis by simp
  next
    case (Some p)
    obtain cb ms where p: "p = (cb, ms)" by (cases p)
    show ?thesis
    proof (cases cb)
      case ConnectionTimeout
      have "reconnectAttempts (connectionTimeout_fired rnd (clearTimeout t w)) = reconnectAttempts w
          \<and> reconnect_timers (connectionTimeout_fired rnd (clearTimeout t w))
              \<subseteq> reconnect_timers (clearTimeout t w)"
        using c by (simp add: connectionTimeout_fired_def scheduleReconnect_at_max
              split: option.splits)
      then have "reconnectAttempts (connectionTimeout_fired rnd (clearTimeout t w)) = reconnectAttempts w
          \<and> reconnect_timers (connectionTimeout_fired rnd (clearTimeout t w)) \<subseteq> reconnect_timers w"
        using clearTimeout_fields(2) [of t w] by blast
      with TimerFires Some p ConnectionTimeout show ?thesis by simp
    next
      case Reconnect
      have "maxReconnectAttempts \<le> reconnectAttempts (console_write LOG ''Attempting to reconnect WebSocket...'' (clearTimeout t w))"
        using c by simp
      from createWSConnection_at_max [OF this, of _ True rnd thr]
      have "reconnectAttempts (reconnect_fired rnd thr (clearTimeout t w)) = reconnectAttempts w
          \<and> reconnect_timers (reconnect_fired rnd thr (clearTimeout t w))
              \<subseteq> reconnect_timers (clearTimeout t w)"
        by (simp add: reconnect_fired_def Let_def)
      then have "reconnectAttempts (reconnect_fired rnd thr (clearTimeout t w)) = reconnectAttempts w
          \<and> reconnect_timers (reconnect_fired rnd thr (clearTimeout t w)) \<subseteq> reconnect_timers w"
        using clearTimeout_fields(2) [of t w] by blast
      with TimerFires Some p Reconnect show ?thesis by simp
    qed
  qed
next
  case (SocketOpen s)
  with assms(2) show ?thesis by simp
next
  case (SocketMessage s parsed)
  then show ?thesis
    by (auto simp: onmessage_def dispatchEvent_def reconnect_timers_def
          split: option.splits sum.splits)
next
  case (SocketClose s code)
  with assms(2) have code: "code \<noteq> 1000" by simp
  show ?thesis
  proof (cases "sockets w s")
    case None
    with SocketClose show ?thesis by simp
  next
    case (Some ws)
    show ?thesis
    proof (cases "readyState ws = CLOSED")
      case True
      with SocketClose Some show ?thesis by simp
    next
      case False
      let ?w = "w\<lparr> sockets := (sockets w)(s \<mapsto> ws\<lparr> readyState := CLOSED \<rparr>) \<rparr>"
      have "reconnectAttempts (onclose (connectionTimeout ws) code rnd ?w) = reconnectAttempts w
          \<and> reconnect_timers (onclose (connectionTimeout ws) code rnd ?w)
              \<subseteq> reconnect_timers (clearTimeout (connectionTimeout ws) ?w)"
        using assms(1) code by (simp add: onclose_def Let_def scheduleReconnect_at_max)
      moreover have "reconnect_timers (clearTimeout (connectionTimeout ws) ?w) \<subseteq> reconnect_timers w"
        by (auto simp: clearTimeout_def reconnect_timers_def)
      ultimately have "reconnectAttempts (onclose (connectionTimeout ws) code rnd ?w) = reconnectAttempts w
          \<and> reconnect_timers (onclose (connectionTimeout ws) code rnd ?w) \<subseteq> reconnect_timers w"
        by blast
      with SocketClose Some False show ?thesis by simp
    qed
  qed
next
  case (SocketError s)
  then show ?thesis by (simp add: onerror_def split: option.splits)
next
  case BeforeUnload
  then show ?thesis by (simp add: beforeunload_def split: option.splits)
qed

lemma run_at_max:
  assumes "maxReconnectAttempts \<le> reconnectAttempts w"
    and "list_all (\<lambda>(rnd, thr, e). \<not> resets e) es"
  shows "reconnectAttempts (run es w) = reconnectAttempts w
       \<and> reconnect_timers (run es w) \<subseteq> reconnect_timers w"
  using assms
proof (induction es arbitrary: w)
  case Nil
  then show ?case by simp
next
  case (Cons x es)
  obtain rnd thr e where x: "x = (rnd, thr, e)" by (cases x)
  from Cons.prems x have ne: "\<not> resets e" and rest: "list_all (\<lambda>(rnd, thr, e). \<not> resets e) es"
    by simp_all
  from fire_at_max [OF Cons.prems(1) ne, of rnd thr]
  have f: "reconnectAttempts (fire rnd thr e w) = reconnectAttempts w"
    and t: "reconnect_timers (fire rnd thr e w) \<subseteq> reconnect_timers w" by simp_all
  from f Cons.prems(1) have "maxReconnectAttempts \<le> reconnectAttempts (fire rnd thr e w)" by simp
  from Cons.IH [OF this rest]
  have "reconnectAttempts (run es (fire rnd thr e w)) = reconnectAttempts w
      \<and> reconnect_timers (run es (fire rnd thr e w)) \<subseteq> reconnect_timers w"
    using f t by auto
  with x show ?case by simp
qed

subsection \<open>Evaluating the model on concrete worlds\<close>

lemmas world_defs = initial_def maxReconnectAttempts_def createWSConnection_def try_block_def
  close_existing_def
  returned_def socket_state_def setTimeout_def clearTimeout_def ws_close_def console_write_def
  scheduleReconnect_def onclose_def onopen_def onerror_def connectionTimeout_fired_def
  reconnect_fired_def wsUrl_def beforeunload_def sendWSMessage_def JSON_stringify_def ws_send_def
  onmessage_def dispatchEvent_def Let_def

lemma connecting_state:
  "run [(0, False, Call_createWSConnection False)] (initial ''https:'' ''example.org'')
    = \<lparr> socket = Some 0, reconnectAttempts = 0, reconnectTimer = None, isReconnecting = True,
       sockets = [0 \<mapsto> \<lparr> readyState = CONNECTING, url = ''wss://example.org/ws'', connectionTimeout = 1 \<rparr>],
       nextSocket = 1, timers = [1 \<mapsto> (ConnectionTimeout, 10000)], nextTimer = 2,
       location_protocol = ''https:'', location_host = ''example.org'',
       console = [], dispatched = [], sent = [] \<rparr>"
  by (simp add: world_defs)

lemma open_state:
  "run [(0, False, Call_createWSConnection False), (0, False, SocketOpen 0)]
       (initial ''https:'' ''example.org'')
    = \<lparr> socket = Some 0, reconnectAttempts = 0, reconnectTimer = None, isReconnecting = False,
       sockets = [0 \<mapsto> \<lparr> readyState = OPEN, url = ''wss://example.org/ws'', connectionTimeout = 1 \<rparr>],
       nextSocket = 1, timers = Map.empty, nextTimer = 2,
       location_protocol = ''https:'', location_host = ''example.org'',
       console = [(LOG, ''WebSocket connection established'')], dispatched = [], sent = [] \<rparr>"
  by (simp add: world_defs)

lemma run_append: "run (xs @ ys) w = run ys (run xs w)"
  by (induction xs arbitrary: w) auto

lemma failed_close:
  assumes "k < 10"
  shows "fire 0 False (SocketClose k 1006) (failed k) =
     (failed k)\<lparr> sockets := (sockets (failed k))
                     (k \<mapsto> \<lparr> readyState = CLOSED, url = ''wss://example.org/ws'',
                                   connectionTimeout = 2 * k + 1 \<rparr>),
                 timers := [2 * k + 2 \<mapsto> (Reconnect, reconnectDelay k 0)],
                 nextTimer := 2 * k + 3,
                 reconnectTimer := Some (2 * k + 2),
                 reconnectAttempts := Suc k,
                 console := console (failed k) @ [(LOG, ''WebSocket connection closed''),
                    (LOG, ''Scheduling WebSocket reconnect attempt'')] \<rparr>"
  using assms
  by (simp add: failed_def onclose_def clearTimeout_def console_write_def scheduleReconnect_def
        maxReconnectAttempts_def setTimeout_def Let_def)

lemma failed_round:
  assumes "k < 10"
  shows "run (fail_round k) (failed k) = failed (Suc k)"
proof -
  have "run (fail_round k) (failed k)
          = fire 0 False (TimerFires (2 * k + 2)) (fire 0 False (SocketClose k 1006) (failed k))"
    by (simp add: fail_round_def)
  also have "\<dots> = failed (Suc k)"
    unfolding failed_close [OF assms]
    by (simp add: failed_def clearTimeout_def reconnect_fired_def console_write_def
          createWSConnection_def try_block_def close_existing_def socket_state_def
          returned_def setTimeout_def wsUrl_def Let_def fun_eq_iff)
  finally show ?thesis .
qed

lemma failed_0: "run [(0, False, Call_createWSConnection False)] (initial ''https:'' ''example.org'') = failed 0"
  unfolding connecting_state by (simp add: failed_def fun_eq_iff)

lemma run_failures: "k \<le> 10 \<Longrightarrow> run (failures k) (initial ''https:'' ''example.org'') = failed k"
proof (induction k)
  case 0
  then show ?case using failed_0 by (simp add: failures_def)
next
  case (Suc k)
  then have k: "k < 10" and IH: "run (failures k) (initial ''https:'' ''example.org'') = failed k"
    by simp_all
  have "failures (Suc k) = failures k @ fail_round k"
    by (simp add: failures_def)
  then show ?case
    by (simp only: run_append IH failed_round [OF k])
qed

lemma run_reachable: "reachable w \<Longrightarrow> reachable (run es w)"
proof (induction es arbitrary: w)
  case Nil
  then show ?case by simp
next
  case (Cons x es)
  obtain rnd thr e where "x = (rnd, thr, e)" by (cases x)
  with Cons show ?case by (simp add: reachable.turn)
qed

lemma failed_reachable: "k \<le> 10 \<Longrightarrow> reachable (failed k)"
  using run_reachable [OF reachable.start, of "failures k" "''https:''" "''example.org''"]
  by (simp add: run_failures)

lemma failed_fields [simp]:
  "socket (failed k) = Some k"
  "reconnectAttempts (failed k) = k"
  "sockets (failed k) k = Some \<lparr> readyState = CONNECTING, url = ''wss://example.org/ws'',
                                   connectionTimeout = 2 * k + 1 \<rparr>"
  "timers (failed k) = [2 * k + 1 \<mapsto> (ConnectionTimeout, 10000)]"
  "nextTimer (failed k) = 2 * k + 2"
  "nextSocket (failed k) = Suc k"
  "isReconnecting (failed k)"
  by (simp_all add: failed_def)

lemma two_sockets:
  "run [(0, False, Call_createWSConnection False), (0, False, Call_createWSConnection True),
        (0, False, SocketOpen 1)] (initial ''https:'' ''example.org'')
   = \<lparr> socket = Some 1, reconnectAttempts = 0, reconnectTimer = None, isReconnecting = False,
       sockets = [0 \<mapsto> \<lparr> readyState = CLOSING, url = ''wss://example.org/ws'', connectionTimeout = 1 \<rparr>,
                  1 \<mapsto> \<lparr> readyState = OPEN, url = ''wss://example.org/ws'', connectionTimeout = 2 \<rparr>],
       nextSocket = 2, timers = [1 \<mapsto> (ConnectionTimeout, 10000)], nextTimer = 3,
       location_protocol = ''https:'', location_host = ''example.org'',
       console = [(LOG, ''WebSocket connection established'')], dispatched = [], sent = [] \<rparr>"
  by (simp add: world_defs numeral_2_eq_2)

lemma stale_close:
  "run [(0, False, Call_createWSConnection False), (0, False, Call_createWSConnection True),
        (0, False, SocketOpen 1), (0, False, SocketClose 0 1006)]
       (initial ''https:'' ''example.org'')
   = \<lparr> socket = Some 1, reconnectAttempts = 1, reconnectTimer = Some 3, isReconnecting = False,
       sockets = [0 \<mapsto> \<lparr> readyState = CLOSED, url = ''wss://example.org/ws'', connectionTimeout = 1 \<rparr>,
                  1 \<mapsto> \<lparr> readyState = OPEN, url = ''wss://example.org/ws'', connectionTimeout = 2 \<rparr>],
       nextSocket = 2, timers = [3 \<mapsto> (Reconnect, 1000)], nextTimer = 4,
       location_protocol = ''https:'', location_host = ''example.org'',
       console = [(LOG, ''WebSocket connection established''),
                  (LOG, ''WebSocket connection closed''),
                  (LOG, ''Scheduling WebSocket reconnect attempt'')], dispatched = [], sent = [] \<rparr>"
proof -
  have "run [(0, False, Call_createWSConnection False), (0, False, Call_createWSConnection True),
        (0, False, SocketOpen 1), (0, False, SocketClose 0 1006)]
       (initial ''https:'' ''example.org'')
     = fire 0 False (SocketClose 0 1006)
        (run [(0, False, Call_createWSConnection False), (0, False, Call_createWSConnection True),
              (0, False, SocketOpen 1)] (initial ''https:'' ''example.org''))"
    by (simp del: fire.simps)
  then show ?thesis
    unfolding two_sockets
    by (simp add: world_defs delay_values fun_upd_twist)
qed

lemma pending_both:
  "run [(0, False, Call_createWSConnection False), (0, False, SocketClose 0 1006),
        (0, False, Call_createWSConnection True)] (initial ''https:'' ''example.org'')
   = \<lparr> socket = Some 1, reconnectAttempts = 1, reconnectTimer = Some 2, isReconnecting = True,
       sockets = [0 \<mapsto> \<lparr> readyState = CLOSED, url = ''wss://example.org/ws'', connectionTimeout = 1 \<rparr>,
                  1 \<mapsto> \<lparr> readyState = CONNECTING, url = ''wss://example.org/ws'', connectionTimeout = 3 \<rparr>],
       nextSocket = 2,
       timers = [2 \<mapsto> (Reconnect, 1000), 3 \<mapsto> (ConnectionTimeout, 10000)], nextTimer = 4,
       location_protocol = ''https:'', location_host = ''example.org'',
       console = [(LOG, ''WebSocket connection closed''),
                  (LOG, ''Scheduling WebSocket reconnect attempt'')], dispatched = [], sent = [] \<rparr>"
  by (simp add: world_defs delay_values numeral_2_eq_2 numeral_3_eq_3)

subsection \<open>While the counter is at the maximum\<close>

text \<open>
  The counter does not stay at the maximum for good. After ten failed attempts it is 10
  and the socket of the tenth reconnect is CONNECTING. If that socket opens, \<open>onopen\<close>
  resets the counter; when it then closes with code 1006, \<open>scheduleReconnect\<close> arms timer
  22. No call of \<open>createWSConnection\<close> from outside is among these events.
\<close>

theorem open_resets_counterexample:
  "reachable (failed 10)
   \<and> reconnectAttempts (failed 10) = 10 \<and> maxReconnectAttempts = 10
   \<and> reconnectAttempts
        (run [(0, False, SocketOpen 10), (0, False, SocketClose 10 1006)] (failed 10)) = 1
   \<and> timers
        (run [(0, False, SocketOpen 10), (0, False, SocketClose 10 1006)] (failed 10))
       = [22 \<mapsto> (Reconnect, 1000)]"
proof -
  have "reachable (failed 10)" by (rule failed_reachable) simp
  then show ?thesis
    by (simp add: failed_def world_defs delay_values)
qed

text \<open>
  C2, amended. While the counter is at the maximum (10), a call of \<open>scheduleReconnect\<close>
  writes one error line, clears \<open>isReconnecting\<close> and does nothing else: no timer is
  armed or cancelled, the counter stays. The counter leaves the maximum only by an open
  event or a close event of code 1000: through any sequence of events without those two
  (external calls of \<open>createWSConnection\<close> included) the counter keeps its value, no
  reconnect timer is added to the pending ones, and \<open>scheduleReconnect\<close> still arms none.
\<close>

theorem scheduleReconnect_gives_up:
  assumes "maxReconnectAttempts \<le> reconnectAttempts w"
    and "list_all (\<lambda>(rnd, thr, e). \<not> resets e) es"
  shows "maxReconnectAttempts = 10
       \<and> scheduleReconnect rnd w =
           w\<lparr> console := console w @ [(ERROR, ''Maximum reconnection attempts reached. Giving up.'')],
              isReconnecting := False \<rparr>
       \<and> timers (scheduleReconnect rnd w) = timers w
       \<and> nextTimer (scheduleReconnect rnd w) = nextTimer w
       \<and> reconnectAttempts (run es w) = reconnectAttempts w
       \<and> reconnect_timers (run es w) \<subseteq> reconnect_timers w
       \<and> timers (scheduleReconnect rnd (run es w)) = timers (run es w)
       \<and> nextTimer (scheduleReconnect rnd (run es w)) = nextTimer (run es w)"
proof -
  note r = run_at_max [OF assms]
  from r assms(1) have m: "maxReconnectAttempts \<le> reconnectAttempts (run es w)" by simp
  show ?thesis
    using r by (simp add: scheduleReconnect_at_max [OF assms(1)] scheduleReconnect_at_max [OF m]
          maxReconnectAttempts_def)
qed

theorem scheduleReconnect_gives_up_witness:
  "maxReconnectAttempts \<le> reconnectAttempts ((initial ''https:'' ''example.org'')\<lparr> reconnectAttempts := 10 \<rparr>)
   \<and> list_all (\<lambda>(rnd, thr, e). \<not> resets e)
        [(1 / 2, False, Call_createWSConnection True), (1 / 2, False, SocketClose 0 1006)]
   \<and> reconnectAttempts (run [(1 / 2, False, Call_createWSConnection True), (1 / 2, False, SocketClose 0 1006)]
        ((initial ''https:'' ''example.org'')\<lparr> reconnectAttempts := 10 \<rparr>)) = 10
   \<and> reconnect_timers (run [(1 / 2, False, Call_createWSConnection True), (1 / 2, False, SocketClose 0 1006)]
        ((initial ''https:'' ''example.org'')\<lparr> reconnectAttempts := 10 \<rparr>)) = {}
   \<and> timers (scheduleReconnect (1 / 2) ((initial ''https:'' ''example.org'')\<lparr> reconnectAttempts := 10 \<rparr>))
        = Map.empty"
  using scheduleReconnect_gives_up [of "(initial ''https:'' ''example.org'')\<lparr> reconnectAttempts := 10 \<rparr>"
      "[(1 / 2, False, Call_createWSConnection True), (1 / 2, False, SocketClose 0 1006)]" "1 / 2"]
  by (simp add: initial_def maxReconnectAttempts_def reconnect_timers_def)

subsection \<open>Sending while the socket is not open\<close>

text \<open>
  C4. When \<open>socket\<close> is null or its readyState is not OPEN, \<open>sendWSMessage\<close> returns
  normally for every type and payload; the world it returns is the old one with one
  warning appended to the console. Nothing is handed to \<open>socket.send\<close> or kept for later
  (\<open>sent\<close> is unchanged), and \<open>socket\<close>, \<open>reconnectAttempts\<close>, \<open>reconnectTimer\<close>, the
  pending timers and \<open>isReconnecting\<close> are as before.
\<close>

theorem sendWSMessage_not_open:
  assumes "socket_state w \<noteq> Some OPEN"
  shows "sendWSMessage ty payload w =
           Inr (w\<lparr> console := console w @ [(WARN, ''WebSocket not connected, cannot send message'')] \<rparr>)"
  using assms by (simp add: sendWSMessage_def console_write_def split: option.splits)

theorem sendWSMessage_not_open_witness:
  "socket_state (run [(0, False, Call_createWSConnection False)] (initial ''https:'' ''example.org''))
     \<noteq> Some OPEN
   \<and> sendWSMessage ''roll'' (JBigInt 7)
        (run [(0, False, Call_createWSConnection False)] (initial ''https:'' ''example.org''))
      = Inr ((run [(0, False, Call_createWSConnection False)] (initial ''https:'' ''example.org''))
              \<lparr> console := [(WARN, ''WebSocket not connected, cannot send message'')] \<rparr>)"
proof -
  let ?w = "run [(0, False, Call_createWSConnection False)] (initial ''https:'' ''example.org'')"
  have st: "socket_state ?w \<noteq> Some OPEN"
    unfolding connecting_state by (simp add: socket_state_def)
  from sendWSMessage_not_open [OF st, of "''roll''" "JBigInt 7"] st show ?thesis
    unfolding connecting_state by simp
qed

subsection \<open>Inbound messages\<close>

lemma get_prop_field:
  "get_prop data k = (if data = JNull \<or> data = JUndefined then Inl TypeError else Inr (field data k))"
  by (cases data) (simp_all add: field_def)

lemma field_null [simp]: "field JNull k = JUndefined" "field JUndefined k = JUndefined"
  by (simp_all add: field_def)

lemma onmessage_eq:
  "onmessage parsed w =
     w\<lparr> console := console w @ parse_errors parsed,
        dispatched := dispatched w @ notifications parsed \<rparr>"
  by (cases parsed)
     (auto simp: onmessage_def get_prop_field notifications_def parse_errors_def
        console_write_def dispatchEvent_def CustomEvent_detail_def payload_of_def)

text \<open>
  C5. The message handler dispatches exactly the notifications the specification names:
  one \<open>dice_roll_result\<close> for type \<open>dice_roll\<close>, one \<open>campaign_update\<close> for type
  \<open>campaign_update\<close>, none for any other parsed value and none for text that does not
  parse. The notification carries the message's payload; for a message without a
  payload its detail is \<open>null\<close>. A message that does not parse leaves one error line on
  the console. Nothing else changes: the sockets, the module's socket reference and the
  timers are untouched, so the connection stays up.
\<close>

theorem onmessage_notifies:
  "(field data ''type'' = JString ''dice_roll'' \<longrightarrow>
      onmessage (Some data) w
        = w\<lparr> dispatched := dispatched w @ [(''dice_roll_result'', payload_of data)] \<rparr>)
   \<and> (field data ''type'' = JString ''campaign_update'' \<longrightarrow>
      onmessage (Some data) w
        = w\<lparr> dispatched := dispatched w @ [(''campaign_update'', payload_of data)] \<rparr>)
   \<and> (field data ''type'' \<noteq> JString ''dice_roll'' \<and> field data ''type'' \<noteq> JString ''campaign_update'' \<longrightarrow>
      dispatched (onmessage (Some data) w) = dispatched w)
   \<and> (map_of kvs ''payload'' = Some p \<and> p \<noteq> JUndefined \<longrightarrow> payload_of (JObject kvs) = p)
   \<and> (map_of kvs ''payload'' = None \<longrightarrow> payload_of (JObject kvs) = JNull)
   \<and> onmessage None w = w\<lparr> console := console w @ [(ERROR, ''Error parsing WebSocket message:'')] \<rparr>
   \<and> onmessage parsed w =
       w\<lparr> console := console w @ parse_errors parsed,
          dispatched := dispatched w @ notifications parsed \<rparr>
   \<and> sockets (fire rnd thr (SocketMessage s parsed) w) = sockets w
   \<and> socket (fire rnd thr (SocketMessage s parsed) w) = socket w
   \<and> timers (fire rnd thr (SocketMessage s parsed) w) = timers w"
proof -
  have "field data ''type'' = JString ''dice_roll'' \<or> field data ''type'' = JString ''campaign_update''
        \<Longrightarrow> parse_errors (Some data) = []"
    by (auto simp: parse_errors_def)
  moreover have "map_of kvs ''payload'' = Some p \<and> p \<noteq> JUndefined \<longrightarrow> payload_of (JObject kvs) = p"
    and "map_of kvs ''payload'' = None \<longrightarrow> payload_of (JObject kvs) = JNull"
    by (simp_all add: payload_of_def field_def)
  ultimately show ?thesis
    by (auto simp: onmessage_eq notifications_def parse_errors_def split: option.splits)
qed

theorem onmessage_notifies_witness:
  "onmessage
      (Some (JObject [(''type'', JString ''dice_roll''), (''payload'', JObject [(''value'', JNumber 7)])]))
      (initial ''https:'' ''example.org'')
     = (initial ''https:'' ''example.org'')
         \<lparr> dispatched := [(''dice_roll_result'', JObject [(''value'', JNumber 7)])] \<rparr>
   \<and> onmessage
      (Some (JObject [(''type'', JString ''campaign_update''), (''payload'', JString ''Session 3'')]))
      (initial ''https:'' ''example.org'')
     = (initial ''https:'' ''example.org'')
         \<lparr> dispatched := [(''campaign_update'', JString ''Session 3'')] \<rparr>
   \<and> onmessage (Some (JObject [(''type'', JString ''dice_roll'')])) (initial ''https:'' ''example.org'')
     = (initial ''https:'' ''example.org'') \<lparr> dispatched := [(''dice_roll_result'', JNull)] \<rparr>
   \<and> dispatched (onmessage (Some (JObject [(''type'', JString ''chat'')]))
        (initial ''https:'' ''example.org'')) = []
   \<and> onmessage None (initial ''https:'' ''example.org'')
     = (initial ''https:'' ''example.org'')
         \<lparr> console := [(ERROR, ''Error parsing WebSocket message:'')] \<rparr>"
proof -
  let ?i = "initial ''https:'' ''example.org''"
  let ?dk = "[(''type'', JString ''dice_roll''), (''payload'', JObject [(''value'', JNumber 7)])]"
  let ?ck = "[(''type'', JString ''campaign_update''), (''payload'', JString ''Session 3'')]"
  let ?nk = "[(''type'', JString ''dice_roll'')]"
  let ?o = "JObject [(''type'', JString ''chat'')]"
  have d: "field (JObject ?dk) ''type'' = JString ''dice_roll''"
    and c: "field (JObject ?ck) ''type'' = JString ''campaign_update''"
    and n: "field (JObject ?nk) ''type'' = JString ''dice_roll''"
    and o: "field ?o ''type'' \<noteq> JString ''dice_roll'' \<and> field ?o ''type'' \<noteq> JString ''campaign_update''"
    by (simp_all add: field_def)
  have dp: "map_of ?dk ''payload'' = Some (JObject [(''value'', JNumber 7)])
              \<and> JObject [(''value'', JNumber 7)] \<noteq> JUndefined"
    and cp: "map_of ?ck ''payload'' = Some (JString ''Session 3'') \<and> JString ''Session 3'' \<noteq> JUndefined"
    and np: "map_of ?nk ''payload'' = None"
    by simp_all
  note td = onmessage_notifies [of "JObject ?dk" ?i ?dk "JObject [(''value'', JNumber 7)]"]
  note tc = onmessage_notifies [of "JObject ?ck" ?i ?ck "JString ''Session 3''"]
  note tn = onmessage_notifies [of "JObject ?nk" ?i ?nk]
  note tx = onmessage_notifies [of ?o ?i]
  from td d dp
  have 1: "onmessage (Some (JObject ?dk)) ?i
             = ?i\<lparr> dispatched := dispatched ?i @ [(''dice_roll_result'', payload_of (JObject ?dk))] \<rparr>"
    and p1: "payload_of (JObject ?dk) = JObject [(''value'', JNumber 7)]"
    by blast+
  from tc c cp
  have 2: "onmessage (Some (JObject ?ck)) ?i
             = ?i\<lparr> dispatched := dispatched ?i @ [(''campaign_update'', payload_of (JObject ?ck))] \<rparr>"
    and p2: "payload_of (JObject ?ck) = JString ''Session 3''"
    by blast+
  from tn n np
  have 3: "onmessage (Some (JObject ?nk)) ?i
             = ?i\<lparr> dispatched := dispatched ?i @ [(''dice_roll_result'', payload_of (JObject ?nk))] \<rparr>"
    and p3: "payload_of (JObject ?nk) = JNull"
    by blast+
  from tx o
  have 4: "dispatched (onmessage (Some ?o) ?i) = dispatched ?i"
    by blast
  from tx
  have 5: "onmessage None ?i = ?i\<lparr> console := console ?i @ [(ERROR, ''Error parsing WebSocket message:'')] \<rparr>"
    by blast
  have "dispatched ?i = []" "console ?i = []"
    by (simp_all add: initial_def)
  with 1 p1 2 p2 3 p3 4 5 show ?thesis by simp
qed

subsection \<open>Exceptions that reach the caller\<close>

text \<open>
  With the socket OPEN, \<open>sendWSMessage\<close> calls \<open>JSON.stringify\<close> outside any \<open>try\<close>. On
  a payload that holds a BigInt the TypeError reaches the caller.
\<close>

theorem sendWSMessage_throws_counterexample:
  "socket_state (run [(0, False, Call_createWSConnection False), (0, False, SocketOpen 0)]
       (initial ''https:'' ''example.org'')) = Some OPEN
   \<and> sendWSMessage ''roll'' (JBigInt 7)
       (run [(0, False, Call_createWSConnection False), (0, False, SocketOpen 0)]
          (initial ''https:'' ''example.org''))
     = Inl TypeError"
  unfolding open_state by (simp add: sendWSMessage_def socket_state_def JSON_stringify_def)

lemma createWSConnection_returns: "\<exists>w'. createWSConnection force rnd thr w = Inr w'"
  by (simp add: createWSConnection_def split: sum.splits prod.splits)

text \<open>
  C6, amended. \<open>createWSConnection\<close> returns normally in every world, for every \<open>force\<close>,
  also when the WebSocket constructor throws: the \<open>catch\<close> logs and schedules a
  reconnect. \<open>sendWSMessage\<close> returns normally whenever the socket is not OPEN or the
  payload can be serialised.
\<close>

theorem calls_return:
  "(\<exists>w'. createWSConnection force rnd thr w = Inr w')
   \<and> (socket_state w \<noteq> Some OPEN \<or> serializable payload
        \<longrightarrow> (\<exists>w'. sendWSMessage ty payload w = Inr w'))"
  using createWSConnection_returns [of force rnd thr w]
  by (auto simp: sendWSMessage_def JSON_stringify_def split: option.splits)

theorem calls_return_witness:
  "serializable (JObject [(''sides'', JNumber 20)])
   \<and> sendWSMessage ''roll'' (JObject [(''sides'', JNumber 20)])
        (run [(0, False, Call_createWSConnection False), (0, False, SocketOpen 0)]
           (initial ''https:'' ''example.org''))
      = Inr ((run [(0, False, Call_createWSConnection False), (0, False, SocketOpen 0)]
           (initial ''https:'' ''example.org''))
          \<lparr> sent := [(0, JObject [(''type'', JString ''roll''),
                                  (''payload'', JObject [(''sides'', JNumber 20)])])] \<rparr>)
   \<and> (\<exists>w'. createWSConnection True (1 / 2) True
          (run [(0, False, Call_createWSConnection False), (0, False, SocketOpen 0)]
             (initial ''https:'' ''example.org'')) = Inr w')"
  using calls_return [of True "1 / 2" True
      "run [(0, False, Call_createWSConnection False), (0, False, SocketOpen 0)]
           (initial ''https:'' ''example.org'')"
      "JObject [(''sides'', JNumber 20)]" "''roll''"]
  unfolding open_state
  by (simp add: sendWSMessage_def socket_state_def JSON_stringify_def ws_send_def)

subsection \<open>What createWSConnection does\<close>

lemma close_existing_sockets:
  "sockets (close_existing w) s =
     (case sockets w s of
        None \<Rightarrow> None
      | Some ws \<Rightarrow>
          if socket w = Some s \<and> (readyState ws = CONNECTING \<or> readyState ws = OPEN)
          then Some (ws\<lparr> readyState := CLOSING \<rparr>) else Some ws)"
  by (auto simp: close_existing_def socket_state_def ws_close_def split: option.splits)

lemma close_existing_fields [simp]:
  "socket (close_existing w) = socket w"
  "reconnectAttempts (close_existing w) = reconnectAttempts w"
  "reconnectTimer (close_existing w) = reconnectTimer w"
  "isReconnecting (close_existing w) = isReconnecting w"
  "timers (close_existing w) = timers w"
  "nextTimer (close_existing w) = nextTimer w"
  "nextSocket (close_existing w) = nextSocket w"
  "console (close_existing w) = console w"
  "dispatched (close_existing w) = dispatched w"
  "sent (close_existing w) = sent w"
  "location_protocol (close_existing w) = location_protocol w"
  "location_host (close_existing w) = location_host w"
  by (simp_all add: close_existing_def ws_close_def split: option.splits)

lemma try_block_ok:
  "try_block False w =
     Inr ((close_existing w)
           \<lparr> socket := Some (nextSocket w), isReconnecting := True,
              sockets := (sockets (close_existing w))
                (nextSocket w \<mapsto> \<lparr> readyState = CONNECTING, url = wsUrl w, connectionTimeout = nextTimer w \<rparr>),
              nextSocket := Suc (nextSocket w),
              timers := (timers w)(nextTimer w \<mapsto> (ConnectionTimeout, 10000)),
              nextTimer := Suc (nextTimer w) \<rparr>)"
  by (simp add: try_block_def Let_def setTimeout_def)

lemma try_block_throws:
  "try_block True w = Inl (SyntaxError, (close_existing w)\<lparr> isReconnecting := True \<rparr>)"
  by (simp add: try_block_def Let_def)

text \<open>
  In a world where neither early return applies, a WebSocket constructor that throws
  leaves no new socket and no 10-second timeout: the \<open>catch\<close> logs the failure and
  \<open>scheduleReconnect\<close> arms a reconnect timer instead.
\<close>

theorem createWSConnection_throw_counterexample:
  "\<not> isReconnecting (initial ''https:'' ''example.org'')
   \<and> socket_state (initial ''https:'' ''example.org'') = None
   \<and> createWSConnection False (1 / 2) True (initial ''https:'' ''example.org'')
     = Inr \<lparr> socket = None, reconnectAttempts = 1, reconnectTimer = Some 1, isReconnecting = True,
             sockets = Map.empty, nextSocket = 0,
             timers = [1 \<mapsto> (Reconnect, 1500)], nextTimer = 2,
             location_protocol = ''https:'', location_host = ''example.org'',
             console = [(ERROR, ''Failed to create WebSocket connection:''),
                        (LOG, ''Scheduling WebSocket reconnect attempt'')],
             dispatched = [], sent = [] \<rparr>"
  by (simp add: world_defs delay_values)

text \<open>
  C7, amended. \<open>createWSConnection(force)\<close> returns without changing anything exactly
  when \<open>force\<close> is false and either \<open>isReconnecting\<close> is set or the socket is OPEN or
  CONNECTING. Otherwise it closes the existing socket if that is CONNECTING or OPEN and
  sets \<open>isReconnecting\<close>; then, if the WebSocket constructor does not throw, the new
  socket (CONNECTING, to \<open>wss://host/ws\<close> when the page's protocol is \<open>https:\<close> and to
  \<open>ws://host/ws\<close> otherwise) becomes the module's socket and a timeout of 10000 ms is
  armed; if the constructor throws, the failure is logged and \<open>scheduleReconnect\<close> runs.
\<close>

theorem createWSConnection_cases:
  defines "noop \<equiv> \<lambda>force w. \<not> force \<and> (isReconnecting w \<or> socket_state w = Some OPEN \<or> socket_state w = Some CONNECTING)"
  shows
  "(noop force w \<longrightarrow> createWSConnection force rnd thr w = Inr w)
   \<and> (\<not> noop force w \<and> \<not> thr
      \<longrightarrow> createWSConnection force rnd thr w =
            Inr ((close_existing w)
              \<lparr> socket := Some (nextSocket w), isReconnecting := True,
                 sockets := (sockets (close_existing w))
                   (nextSocket w \<mapsto> \<lparr> readyState = CONNECTING, url = wsUrl w, connectionTimeout = nextTimer w \<rparr>),
                 nextSocket := Suc (nextSocket w),
                 timers := (timers w)(nextTimer w \<mapsto> (ConnectionTimeout, 10000)),
                 nextTimer := Suc (nextTimer w) \<rparr>))
   \<and> (\<not> noop force w \<and> thr
      \<longrightarrow> createWSConnection force rnd thr w =
            Inr (scheduleReconnect rnd
                  (console_write ERROR ''Failed to create WebSocket connection:''
                    ((close_existing w)\<lparr> isReconnecting := True \<rparr>))))
   \<and> wsUrl w = (if location_protocol w = ''https:'' then ''wss:'' else ''ws:'')
                 @ ''//'' @ location_host w @ ''/ws''
   \<and> sockets (close_existing w) s =
       (case sockets w s of
          None \<Rightarrow> None
        | Some ws \<Rightarrow>
            if socket w = Some s \<and> (readyState ws = CONNECTING \<or> readyState ws = OPEN)
            then Some (ws\<lparr> readyState := CLOSING \<rparr>) else Some ws)"
  unfolding noop_def
  using close_existing_sockets [of w s]
  by (auto simp: createWSConnection_def try_block_ok try_block_throws wsUrl_def)


theorem createWSConnection_cases_witness:
  "createWSConnection False 0 False
      (run [(0, False, Call_createWSConnection False)] (initial ''https:'' ''example.org''))
     = Inr (run [(0, False, Call_createWSConnection False)] (initial ''https:'' ''example.org''))
   \<and> createWSConnection True 0 False
      (run [(0, False, Call_createWSConnection False), (0, False, SocketOpen 0)]
         (initial ''https:'' ''example.org''))
     = Inr \<lparr> socket = Some 1, reconnectAttempts = 0, reconnectTimer = None, isReconnecting = True,
       sockets = [0 \<mapsto> \<lparr> readyState = CLOSING, url = ''wss://example.org/ws'', connectionTimeout = 1 \<rparr>,
                  1 \<mapsto> \<lparr> readyState = CONNECTING, url = ''wss://example.org/ws'', connectionTimeout = 2 \<rparr>],
       nextSocket = 2, timers = [2 \<mapsto> (ConnectionTimeout, 10000)], nextTimer = 3,
       location_protocol = ''https:'', location_host = ''example.org'',
       console = [(LOG, ''WebSocket connection established'')], dispatched = [], sent = [] \<rparr>
   \<and> createWSConnection False (1 / 2) True (initial ''http:'' ''localhost:5000'')
     = Inr (scheduleReconnect (1 / 2)
             (console_write ERROR ''Failed to create WebSocket connection:''
               ((initial ''http:'' ''localhost:5000'')\<lparr> isReconnecting := True \<rparr>)))
   \<and> wsUrl (initial ''http:'' ''localhost:5000'') = ''ws://localhost:5000/ws''"
  using createWSConnection_cases [of False
      "run [(0, False, Call_createWSConnection False)] (initial ''https:'' ''example.org'')" 0 False 0]
    createWSConnection_cases [of True
      "run [(0, False, Call_createWSConnection False), (0, False, SocketOpen 0)]
         (initial ''https:'' ''example.org'')" 0 False 0]
    createWSConnection_cases [of False "initial ''http:'' ''localhost:5000''" "1 / 2" True 0]
  unfolding connecting_state open_state
  by (simp add: socket_state_def close_existing_def ws_close_def wsUrl_def initial_def)

subsection \<open>The connection timeout\<close>

text \<open>
  After nine failed attempts the counter is 9. When the connection timeout of the tenth
  socket fires, the handler's \<open>scheduleReconnect\<close> takes the counter to 10 and arms timer
  20; the \<open>scheduleReconnect\<close> of the close event that follows finds the counter at the
  maximum and returns early. The counter has grown by 1, and timer 20 is neither
  cancelled nor replaced.
\<close>

theorem timeout_at_nine_counterexample:
  "reconnectAttempts (failed 9) = 9
   \<and> socket_state (failed 9) = Some CONNECTING
   \<and> timers (failed 9) 19 = Some (ConnectionTimeout, 10000)
   \<and> reconnectAttempts
        (run [(0, False, TimerFires 19), (0, False, SocketClose 9 1006)] (failed 9)) = 10
   \<and> timers
        (run [(0, False, TimerFires 19), (0, False, SocketClose 9 1006)] (failed 9)) 20
       = Some (Reconnect, 30000)
   \<and> reconnectTimer
        (run [(0, False, TimerFires 19), (0, False, SocketClose 9 1006)] (failed 9)) = Some 20"
  by (simp add: failed_def world_defs delay_values)

text \<open>
  C10, amended. The connection timeout fires while the module's socket is not open and
  not yet closed (CONNECTING or CLOSING), the counter is at most 8, and the close event
  that the handler's \<open>socket.close()\<close> brings about has a code other than 1000. Then
  \<open>scheduleReconnect\<close> runs twice: once from the timeout handler, once from \<open>onclose\<close>.
  The counter grows by 2, and the timer armed by the first run is cancelled and replaced
  by the one the second run arms.
\<close>

theorem timeout_schedules_twice:
  fixes w :: world and s c code :: nat and ws :: websocket and ms r1 r2 :: rat
    and thr1 thr2 :: bool
  assumes "socket w = Some s" and "sockets w s = Some ws"
    and "readyState ws = CONNECTING \<or> readyState ws = CLOSING"
    and "timers w c = Some (ConnectionTimeout, ms)"
    and "reconnectAttempts w + 2 \<le> maxReconnectAttempts"
    and "code \<noteq> 1000"
  defines "w1 \<equiv> fire r1 thr1 (TimerFires c) w"
  defines "w2 \<equiv> fire r2 thr2 (SocketClose s code) w1"
  shows "reconnectAttempts w1 = reconnectAttempts w + 1
       \<and> sockets w1 s = Some (ws\<lparr> readyState := CLOSING \<rparr>)
       \<and> reconnectTimer w1 = Some (nextTimer w)
       \<and> timers w1 (nextTimer w) = Some (Reconnect, reconnectDelay (reconnectAttempts w) r1)
       \<and> reconnectAttempts w2 = reconnectAttempts w + 2
       \<and> timers w2 (nextTimer w) = None
       \<and> reconnectTimer w2 = Some (Suc (nextTimer w))
       \<and> timers w2 (Suc (nextTimer w))
           = Some (Reconnect, reconnectDelay (reconnectAttempts w + 1) r2)
       \<and> console w2 = console w @
           [(WARN, ''WebSocket connection timeout - forcing close and reconnect''),
            (LOG, ''Scheduling WebSocket reconnect attempt''),
            (LOG, ''WebSocket connection closed''),
            (LOG, ''Scheduling WebSocket reconnect attempt'')]"
proof -
  have st: "socket_state (clearTimeout c w) \<noteq> Some OPEN"
    using assms(1-3) by (auto simp: socket_state_def clearTimeout_def)
  have w1: "w1 = scheduleReconnect r1
              (ws_close s (console_write WARN
                 ''WebSocket connection timeout - forcing close and reconnect'' (clearTimeout c w)))"
    using assms(1,4) st by (simp add: w1_def connectionTimeout_fired_def clearTimeout_def)
  have a: "reconnectAttempts w1 = reconnectAttempts w + 1"
    and b: "sockets w1 s = Some (ws\<lparr> readyState := CLOSING \<rparr>)"
    and c: "reconnectTimer w1 = Some (nextTimer w)"
    and d: "timers w1 (nextTimer w) = Some (Reconnect, reconnectDelay (reconnectAttempts w) r1)"
    and e: "nextTimer w1 = Suc (nextTimer w)"
    and f: "console w1 = console w @
           [(WARN, ''WebSocket connection timeout - forcing close and reconnect''),
            (LOG, ''Scheduling WebSocket reconnect attempt'')]"
    using assms(2,3,5)
    by (auto simp: w1 scheduleReconnect_def ws_close_def console_write_def clearTimeout_def
          setTimeout_def Let_def split: option.splits)
  have ne: "readyState (ws\<lparr> readyState := CLOSING \<rparr>) \<noteq> CLOSED" by simp
  have w2: "w2 = onclose (connectionTimeout ws) code r2
              (w1\<lparr> sockets := (sockets w1)(s \<mapsto> ws\<lparr> readyState := CLOSED \<rparr>) \<rparr>)"
    using b by (simp add: w2_def)
  have lt: "\<not> maxReconnectAttempts \<le> reconnectAttempts w1"
    using a assms(5) by simp
  have g: "reconnectAttempts w2 = reconnectAttempts w + 2"
    and h: "timers w2 (nextTimer w) = None"
    and i: "reconnectTimer w2 = Some (Suc (nextTimer w))"
    and j: "timers w2 (Suc (nextTimer w))
           = Some (Reconnect, reconnectDelay (reconnectAttempts w + 1) r2)"
    and k: "console w2 = console w1 @ [(LOG, ''WebSocket connection closed''),
            (LOG, ''Scheduling WebSocket reconnect attempt'')]"
    using lt a c e assms(6)
    by (simp_all add: w2 onclose_def scheduleReconnect_def console_write_def clearTimeout_def
          setTimeout_def Let_def)
  from a b c d g h i j k f show ?thesis by simp
qed

theorem timeout_schedules_twice_witness:
  "socket (failed 0) = Some 0
   \<and> sockets (failed 0) 0
       = Some \<lparr> readyState = CONNECTING, url = ''wss://example.org/ws'', connectionTimeout = 1 \<rparr>
   \<and> timers (failed 0) 1 = Some (ConnectionTimeout, 10000)
   \<and> reconnectAttempts (failed 0) + 2 \<le> maxReconnectAttempts
   \<and> reconnectAttempts (fire (1 / 2) False (SocketClose 0 1006)
                            (fire 0 False (TimerFires 1) (failed 0))) = 2
   \<and> timers (fire (1 / 2) False (SocketClose 0 1006)
                 (fire 0 False (TimerFires 1) (failed 0))) 2 = None
   \<and> timers (fire (1 / 2) False (SocketClose 0 1006)
                 (fire 0 False (TimerFires 1) (failed 0))) 3 = Some (Reconnect, 2000)"
proof -
  let ?ws = "\<lparr> readyState = CONNECTING, url = ''wss://example.org/ws'', connectionTimeout = 1 \<rparr>"
  have p1: "socket (failed 0) = Some 0" by simp
  have p2: "sockets (failed 0) 0 = Some ?ws" by (simp add: failed_def)
  have p3: "readyState ?ws = CONNECTING \<or> readyState ?ws = CLOSING" by simp
  have p4: "timers (failed 0) 1 = Some (ConnectionTimeout, 10000)" by simp
  have p5: "reconnectAttempts (failed 0) + 2 \<le> maxReconnectAttempts"
    by (simp add: maxReconnectAttempts_def)
  have p6: "(1006 :: nat) \<noteq> 1000" by simp
  note t = timeout_schedules_twice [OF p1 p2 p3 p4 p5 p6, of 0 False "1 / 2" False]
  from t p1 p2 p4 p5 show ?thesis
    by (simp add: delay_values numeral_2_eq_2 numeral_3_eq_3 del: fire.simps)
qed

subsection \<open>After the reconnect budget is exhausted\<close>

lemma quiet_socket_state: "quiet w \<Longrightarrow> socket_state w = None \<or> socket_state w = Some CLOSED"
  by (auto simp: quiet_def socket_state_def split: option.splits)

lemma quiet_fire:
  assumes "quiet w" and "\<not> is_connect e"
  shows "fire rnd thr e w = w\<lparr> console := console (fire rnd thr e w) \<rparr>"
proof (cases e)
  case (Call_createWSConnection force)
  with assms(2) show ?thesis by simp
next
  case (Call_sendWSMessage ty p)
  from quiet_socket_state [OF assms(1)] have "socket_state w \<noteq> Some OPEN" by auto
  with Call_sendWSMessage show ?thesis
    by (simp add: sendWSMessage_def console_write_def returned_def split: option.splits)
next
  case (TimerFires t)
  with assms(1) show ?thesis by (simp add: quiet_def)
next
  case (SocketOpen s)
  with assms(1) show ?thesis by (auto simp: quiet_def split: option.splits)
next
  case (SocketMessage s parsed)
  with assms(1) show ?thesis by (auto simp: quiet_def split: option.splits)
next
  case (SocketClose s code)
  with assms(1) show ?thesis by (auto simp: quiet_def split: option.splits)
next
  case (SocketError s)
  with assms(1) show ?thesis by (auto simp: quiet_def split: option.splits)
next
  case BeforeUnload
  with assms(1) show ?thesis
    by (auto simp: quiet_def beforeunload_def ws_close_def split: option.splits)
qed

lemma quiet_console: "quiet w \<Longrightarrow> quiet (w\<lparr> console := c \<rparr>)"
  by (simp add: quiet_def)

lemma quiet_run:
  assumes "quiet w" and "list_all (\<lambda>(rnd, thr, e). \<not> is_connect e) es"
  shows "run es w = w\<lparr> console := console (run es w) \<rparr>"
  using assms
proof (induction es arbitrary: w)
  case Nil
  then show ?case by simp
next
  case (Cons x es)
  obtain rnd thr e where x: "x = (rnd, thr, e)" by (cases x)
  from Cons.prems x have ne: "\<not> is_connect e"
    and rest: "list_all (\<lambda>(rnd, thr, e). \<not> is_connect e) es" by simp_all
  let ?w1 = "fire rnd thr e w"
  have f: "?w1 = w\<lparr> console := console ?w1 \<rparr>"
    by (rule quiet_fire [OF Cons.prems(1) ne])
  then have "quiet ?w1" using quiet_console [OF Cons.prems(1), of "console ?w1"] by simp
  from Cons.IH [OF this rest] have "run es ?w1 = ?w1\<lparr> console := console (run es ?w1) \<rparr>" .
  then have "run es ?w1 = (w\<lparr> console := console ?w1 \<rparr>)\<lparr> console := console (run es ?w1) \<rparr>"
    using f by simp
  then show ?case using x by simp
qed

lemma quiet_connect:
  assumes "quiet v"
  shows "createWSConnection False r thr v = createWSConnection True r thr v"
    and "returned v (createWSConnection force r False v) =
          v\<lparr> socket := Some (nextSocket v), isReconnecting := True,
             sockets := (sockets v)
               (nextSocket v \<mapsto> \<lparr> readyState = CONNECTING, url = wsUrl v, connectionTimeout = nextTimer v \<rparr>),
             nextSocket := Suc (nextSocket v),
             timers := [nextTimer v \<mapsto> (ConnectionTimeout, 10000)],
             nextTimer := Suc (nextTimer v) \<rparr>"
proof -
  from quiet_socket_state [OF assms]
  have st: "socket_state v \<noteq> Some OPEN" "socket_state v \<noteq> Some CONNECTING" by auto
  from assms have nr: "\<not> isReconnecting v" and t: "timers v = Map.empty" by (simp_all add: quiet_def)
  from nr st show "createWSConnection False r thr v = createWSConnection True r thr v"
    by (simp add: createWSConnection_def)
  have "close_existing v = v"
    using quiet_socket_state [OF assms]
    by (auto simp: close_existing_def ws_close_def socket_state_def split: option.splits)
  with nr st t show "returned v (createWSConnection force r False v) =
          v\<lparr> socket := Some (nextSocket v), isReconnecting := True,
             sockets := (sockets v)
               (nextSocket v \<mapsto> \<lparr> readyState = CONNECTING, url = wsUrl v, connectionTimeout = nextTimer v \<rparr>),
             nextSocket := Suc (nextSocket v),
             timers := [nextTimer v \<mapsto> (ConnectionTimeout, 10000)],
             nextTimer := Suc (nextTimer v) \<rparr>"
    by (simp add: createWSConnection_def try_block_ok returned_def)
qed

text \<open>
  After ten failed attempts the last socket closes with code 1006: \<open>scheduleReconnect\<close>
  gives up, the counter is 10, no timer is pending and \<open>isReconnecting\<close> is cleared. A
  call \<open>createWSConnection(false)\<close> in that world passes both early returns and opens
  socket 11 with its connection timeout.
\<close>

theorem connect_after_giving_up_counterexample:
  "reconnectAttempts (fire 0 False (SocketClose 10 1006) (failed 10)) = 10
   \<and> timers (fire 0 False (SocketClose 10 1006) (failed 10)) = Map.empty
   \<and> \<not> isReconnecting (fire 0 False (SocketClose 10 1006) (failed 10))
   \<and> socket_state (fire 0 False (SocketClose 10 1006) (failed 10)) = Some CLOSED
   \<and> socket (run [(0, False, SocketClose 10 1006), (0, False, Call_createWSConnection False)]
               (failed 10)) = Some 11
   \<and> socket_state (run [(0, False, SocketClose 10 1006), (0, False, Call_createWSConnection False)]
               (failed 10)) = Some CONNECTING
   \<and> timers (run [(0, False, SocketClose 10 1006), (0, False, Call_createWSConnection False)]
               (failed 10)) = [22 \<mapsto> (ConnectionTimeout, 10000)]"
  by (simp add: failed_def world_defs)

text \<open>
  C9, amended. \<open>scheduleReconnect\<close> is called with the counter at the maximum, no timer
  pending and every socket CLOSED. It gives up and clears \<open>isReconnecting\<close>. From then on,
  through any events other than a call of \<open>createWSConnection\<close>, the manager stays idle:
  no timer is armed, no socket is opened or changed, the counter stays. A call of
  \<open>createWSConnection\<close> then does the same for \<open>force = false\<close> as for \<open>force = true\<close>:
  unless the constructor throws, it opens a new CONNECTING socket and arms its 10-second
  timeout.
\<close>

theorem exhausted_idle:
  fixes w :: world and rnd r :: rat and thr force :: bool
    and es :: "(rat \<times> bool \<times> event) list"
  assumes "maxReconnectAttempts \<le> reconnectAttempts w"
    and "timers w = Map.empty"
    and "\<forall>s ws. sockets w s = Some ws \<longrightarrow> readyState ws = CLOSED"
    and "list_all (\<lambda>(rnd, thr, e). \<not> is_connect e) es"
  defines "v \<equiv> run es (scheduleReconnect rnd w)"
  shows "timers v = Map.empty \<and> sockets v = sockets w \<and> socket v = socket w
       \<and> nextSocket v = nextSocket w \<and> nextTimer v = nextTimer w
       \<and> reconnectAttempts v = reconnectAttempts w \<and> \<not> isReconnecting v
       \<and> createWSConnection False r thr v = createWSConnection True r thr v
       \<and> returned v (createWSConnection force r False v) =
           v\<lparr> socket := Some (nextSocket w), isReconnecting := True,
              sockets := (sockets w)
                (nextSocket w \<mapsto> \<lparr> readyState = CONNECTING, url = wsUrl w, connectionTimeout = nextTimer w \<rparr>),
              nextSocket := Suc (nextSocket w),
              timers := [nextTimer w \<mapsto> (ConnectionTimeout, 10000)],
              nextTimer := Suc (nextTimer w) \<rparr>"
proof -
  let ?g = "scheduleReconnect rnd w"
  have g: "?g = w\<lparr> console := console w @ [(ERROR, ''Maximum reconnection attempts reached. Giving up.'')],
                    isReconnecting := False \<rparr>"
    by (rule scheduleReconnect_at_max [OF assms(1)])
  have q: "quiet ?g"
    using assms(2,3) unfolding g by (simp add: quiet_def)
  have v: "v = ?g\<lparr> console := console v \<rparr>"
    unfolding v_def by (rule quiet_run [OF q assms(4)])
  have qv: "quiet v"
    using quiet_console [OF q, of "console v"] v by simp
  have f: "timers v = Map.empty" "sockets v = sockets w" "socket v = socket w"
    "nextSocket v = nextSocket w" "nextTimer v = nextTimer w"
    "reconnectAttempts v = reconnectAttempts w" "\<not> isReconnecting v" "wsUrl v = wsUrl w"
    using assms(2) by (subst v, simp add: g wsUrl_def)+
  from quiet_connect(1) [OF qv, of r thr] quiet_connect(2) [OF qv, of force r] f
  show ?thesis by simp
qed

theorem exhausted_idle_witness:
  "maxReconnectAttempts \<le> reconnectAttempts all_closed
   \<and> timers all_closed = Map.empty
   \<and> list_all (\<lambda>(rnd, thr, e). \<not> is_connect e)
         [(0, False, Call_sendWSMessage ''roll'' JNull), (0, False, TimerFires 21),
          (0, False, SocketClose 10 1006)]
   \<and> timers (run [(0, False, Call_sendWSMessage ''roll'' JNull), (0, False, TimerFires 21),
                  (0, False, SocketClose 10 1006)] (scheduleReconnect 0 all_closed)) = Map.empty
   \<and> socket (returned
         (run [(0, False, Call_sendWSMessage ''roll'' JNull), (0, False, TimerFires 21),
               (0, False, SocketClose 10 1006)] (scheduleReconnect 0 all_closed))
         (createWSConnection False 0 False
           (run [(0, False, Call_sendWSMessage ''roll'' JNull), (0, False, TimerFires 21),
                 (0, False, SocketClose 10 1006)] (scheduleReconnect 0 all_closed)))) = Some 11"
proof -
  let ?es = "[(0, False, Call_sendWSMessage ''roll'' JNull), (0, False, TimerFires 21),
              (0 :: rat, False, SocketClose 10 1006)]"
  have p1: "maxReconnectAttempts \<le> reconnectAttempts all_closed"
    by (simp add: all_closed_def maxReconnectAttempts_def)
  have p2: "timers all_closed = Map.empty"
    by (simp add: all_closed_def)
  have p3: "\<forall>s ws. sockets all_closed s = Some ws \<longrightarrow> readyState ws = CLOSED"
    by (auto simp: all_closed_def split: if_splits)
  have p4: "list_all (\<lambda>(rnd, thr, e). \<not> is_connect e) ?es"
    by simp
  have n: "nextSocket all_closed = 11"
    by (simp add: all_closed_def)
  note t = exhausted_idle [OF p1 p2 p3 p4, of 0 0 False False]
  from t have "timers (run ?es (scheduleReconnect 0 all_closed)) = Map.empty" by blast
  moreover from t
  have "returned (run ?es (scheduleReconnect 0 all_closed))
          (createWSConnection False 0 False (run ?es (scheduleReconnect 0 all_closed)))
        = (run ?es (scheduleReconnect 0 all_closed))
            \<lparr> socket := Some (nextSocket all_closed), isReconnecting := True,
              sockets := (sockets all_closed)
                (nextSocket all_closed \<mapsto>
                   \<lparr> readyState = CONNECTING, url = wsUrl all_closed,
                     connectionTimeout = nextTimer all_closed \<rparr>),
              nextSocket := Suc (nextSocket all_closed),
              timers := [nextTimer all_closed \<mapsto> (ConnectionTimeout, 10000)],
              nextTimer := Suc (nextTimer all_closed) \<rparr>"
    by blast
  then have "socket (returned (run ?es (scheduleReconnect 0 all_closed))
          (createWSConnection False 0 False (run ?es (scheduleReconnect 0 all_closed))))
        = Some (nextSocket all_closed)"
    by (simp del: run.simps)
  ultimately show ?thesis using p1 p2 p4 n by (simp del: run.simps)
qed

subsection \<open>A close with code 1000\<close>

lemma onclose_1000:
  "onclose c 1000 rnd w =
     w\<lparr> timers := (timers w)(c := None),
        console := console w @ [(LOG, ''WebSocket connection closed'')],
        isReconnecting := False, reconnectAttempts := 0 \<rparr>"
  by (simp add: onclose_def clearTimeout_def console_write_def)

text \<open>
  C3. The handler of a close event with code 1000 cancels the socket's connection
  timeout, clears \<open>isReconnecting\<close> and resets the counter to 0; it does not call
  \<open>scheduleReconnect\<close>. It leaves \<open>reconnectTimer\<close> alone, so a reconnect timer armed
  before the close stays pending and a reconnect attempt follows the close. Here: the
  page connects, forces a second connection, which opens; the close event of the first
  socket (code 1006) schedules a reconnect as timer 3; the server closes the open socket
  with code 1000. The counter is 0 again, but timer 3 is still pending, and when it
  fires \<open>createWSConnection(true)\<close> opens socket 2.
\<close>

theorem close_1000_reconnects:
  "reconnectAttempts
     (run [(0, False, Call_createWSConnection False), (0, False, Call_createWSConnection True),
           (0, False, SocketOpen 1), (0, False, SocketClose 0 1006), (0, False, SocketClose 1 1000)]
        (initial ''https:'' ''example.org'')) = 0
   \<and> timers
     (run [(0, False, Call_createWSConnection False), (0, False, Call_createWSConnection True),
           (0, False, SocketOpen 1), (0, False, SocketClose 0 1006), (0, False, SocketClose 1 1000)]
        (initial ''https:'' ''example.org'')) = [3 \<mapsto> (Reconnect, 1000)]
   \<and> socket_state
     (run [(0, False, Call_createWSConnection False), (0, False, Call_createWSConnection True),
           (0, False, SocketOpen 1), (0, False, SocketClose 0 1006), (0, False, SocketClose 1 1000)]
        (initial ''https:'' ''example.org'')) = Some CLOSED
   \<and> socket
     (run [(0, False, Call_createWSConnection False), (0, False, Call_createWSConnection True),
           (0, False, SocketOpen 1), (0, False, SocketClose 0 1006), (0, False, SocketClose 1 1000),
           (0, False, TimerFires 3)]
        (initial ''https:'' ''example.org'')) = Some 2
   \<and> socket_state
     (run [(0, False, Call_createWSConnection False), (0, False, Call_createWSConnection True),
           (0, False, SocketOpen 1), (0, False, SocketClose 0 1006), (0, False, SocketClose 1 1000),
           (0, False, TimerFires 3)]
        (initial ''https:'' ''example.org'')) = Some CONNECTING"
proof -
  let ?es = "[(0 :: rat, False, Call_createWSConnection False), (0, False, Call_createWSConnection True),
           (0, False, SocketOpen 1), (0, False, SocketClose 0 1006)]"
  let ?i = "initial ''https:'' ''example.org''"
  have a: "run (?es @ [(0, False, SocketClose 1 1000)]) ?i
             = fire 0 False (SocketClose 1 1000) (run ?es ?i)"
    by (simp only: run_append run.simps)
  have b: "run (?es @ [(0, False, SocketClose 1 1000), (0, False, TimerFires 3)]) ?i
             = fire 0 False (TimerFires 3) (fire 0 False (SocketClose 1 1000) (run ?es ?i))"
    by (simp only: run_append run.simps)
  have "reconnectAttempts (fire 0 False (SocketClose 1 1000) (run ?es ?i)) = 0"
    and "timers (fire 0 False (SocketClose 1 1000) (run ?es ?i)) = [3 \<mapsto> (Reconnect, 1000)]"
    and "socket_state (fire 0 False (SocketClose 1 1000) (run ?es ?i)) = Some CLOSED"
    and "socket (fire 0 False (TimerFires 3) (fire 0 False (SocketClose 1 1000) (run ?es ?i))) = Some 2"
    and "socket_state (fire 0 False (TimerFires 3) (fire 0 False (SocketClose 1 1000) (run ?es ?i)))
          = Some CONNECTING"
    unfolding stale_close by (simp_all add: world_defs)
  with a b show ?thesis by (simp del: fire.simps run.simps)
qed

subsection \<open>Pending timers\<close>

lemma tracked_initial: "tracked (initial proto host)"
  by (simp add: tracked_def initial_def)

lemma tracked_clearTimeout: "tracked w \<Longrightarrow> tracked (clearTimeout t w)"
  by (auto simp: tracked_def clearTimeout_def)

lemma tracked_console_write: "tracked w \<Longrightarrow> tracked (console_write l m w)"
  by (simp add: tracked_def console_write_def)

lemma tracked_ws_close: "tracked w \<Longrightarrow> tracked (ws_close s w)"
  by (simp add: tracked_def ws_close_def split: option.splits)

lemma tracked_scheduleReconnect: "tracked w \<Longrightarrow> tracked (scheduleReconnect rnd w)"
  by (auto simp: tracked_def scheduleReconnect_def console_write_def clearTimeout_def
        setTimeout_def Let_def split: option.splits)

lemma tracked_createWSConnection:
  assumes "tracked w"
  shows "tracked (returned w0 (createWSConnection force rnd thr w))"
proof (cases thr)
  case True
  have "tracked (console_write ERROR ''Failed to create WebSocket connection:''
                  ((close_existing w)\<lparr> isReconnecting := True \<rparr>))"
    using assms
    by (auto simp: tracked_def console_write_def close_existing_def ws_close_def
          split: option.splits)
  from tracked_scheduleReconnect [OF this] True assms show ?thesis
    by (simp add: createWSConnection_def try_block_throws returned_def)
next
  case False
  have "tracked ((close_existing w)
           \<lparr> socket := Some (nextSocket w), isReconnecting := True,
              sockets := (sockets (close_existing w))
                (nextSocket w \<mapsto> \<lparr> readyState = CONNECTING, url = wsUrl w, connectionTimeout = nextTimer w \<rparr>),
              nextSocket := Suc (nextSocket w),
              timers := (timers w)(nextTimer w \<mapsto> (ConnectionTimeout, 10000)),
              nextTimer := Suc (nextTimer w) \<rparr>)"
    using assms by (auto simp: tracked_def)
  with False assms show ?thesis
    by (simp add: createWSConnection_def try_block_ok returned_def)
qed

lemma tracked_fire:
  assumes "tracked w"
  shows "tracked (fire rnd thr e w)"
proof (cases e)
  case (Call_createWSConnection force)
  then show ?thesis using tracked_createWSConnection [OF assms] by simp
next
  case (Call_sendWSMessage ty p)
  then show ?thesis using assms
    by (auto simp: tracked_def sendWSMessage_def returned_def console_write_def ws_send_def
          JSON_stringify_def split: option.splits)
next
  case (TimerFires t)
  show ?thesis
  proof (cases "timers w t")
    case None
    with TimerFires assms show ?thesis by simp
  next
    case (Some p)
    obtain cb ms where p: "p = (cb, ms)" by (cases p)
    note c = tracked_clearTimeout [OF assms, of t]
    show ?thesis
    proof (cases cb)
      case ConnectionTimeout
      have "tracked (connectionTimeout_fired rnd (clearTimeout t w))"
        using c tracked_scheduleReconnect tracked_ws_close tracked_console_write
        by (simp add: connectionTimeout_fired_def split: option.splits)
      with TimerFires Some p ConnectionTimeout show ?thesis by simp
    next
      case Reconnect
      have "tracked (reconnect_fired rnd thr (clearTimeout t w))"
        using tracked_createWSConnection [OF tracked_console_write [OF c]]
        by (simp add: reconnect_fired_def Let_def)
      with TimerFires Some p Reconnect show ?thesis by simp
    qed
  qed
next
  case (SocketOpen s)
  then show ?thesis using assms
    by (auto simp: tracked_def onopen_def console_write_def clearTimeout_def Let_def
          split: option.splits)
next
  case (SocketMessage s parsed)
  then show ?thesis using assms
    by (auto simp: tracked_def onmessage_eq split: option.splits)
next
  case (SocketClose s code)
  show ?thesis
  proof (cases "sockets w s")
    case None
    with SocketClose assms show ?thesis by simp
  next
    case (Some ws)
    let ?w = "w\<lparr> sockets := (sockets w)(s \<mapsto> ws\<lparr> readyState := CLOSED \<rparr>) \<rparr>"
    have "tracked ?w" using assms by (simp add: tracked_def)
    then have t: "tracked (console_write LOG ''WebSocket connection closed''
                    (clearTimeout (connectionTimeout ws) ?w))"
      by (intro tracked_console_write tracked_clearTimeout)
    have "tracked (onclose (connectionTimeout ws) code rnd ?w)"
    proof (cases "code = 1000")
      case True
      with t show ?thesis by (simp add: onclose_def Let_def tracked_def)
    next
      case False
      with tracked_scheduleReconnect [OF t] show ?thesis by (simp add: onclose_def Let_def)
    qed
    with SocketClose Some assms show ?thesis by simp
  qed
next
  case (SocketError s)
  then show ?thesis using assms
    by (auto simp: onerror_def tracked_console_write split: option.splits)
next
  case BeforeUnload
  then show ?thesis using assms
    by (auto simp: beforeunload_def tracked_ws_close split: option.splits)
qed

lemma reachable_tracked: "reachable w \<Longrightarrow> tracked w"
  by (induction rule: reachable.induct) (simp_all add: tracked_initial tracked_fire)

lemma reconnect_timers_scheduleReconnect:
  assumes "tracked w" and "reconnectAttempts w < maxReconnectAttempts"
  shows "reconnect_timers (scheduleReconnect rnd w) = {nextTimer w}"
  using assms
  by (auto simp: tracked_def reconnect_timers_def scheduleReconnect_def console_write_def
        clearTimeout_def setTimeout_def Let_def split: option.splits if_splits)

text \<open>
  \<open>createWSConnection\<close> arms its connection timeout without cancelling anything. The
  page connects, the socket closes with code 1006 and a reconnect is scheduled (timer
  2); a forced \<open>createWSConnection\<close> then arms the connection timeout of the new socket
  (timer 3) while timer 2 is still pending.
\<close>

theorem two_timers_counterexample:
  "reachable (run [(0, False, Call_createWSConnection False), (0, False, SocketClose 0 1006),
        (0, False, Call_createWSConnection True)] (initial ''https:'' ''example.org''))
   \<and> timers (run [(0, False, Call_createWSConnection False), (0, False, SocketClose 0 1006),
        (0, False, Call_createWSConnection True)] (initial ''https:'' ''example.org''))
      = [2 \<mapsto> (Reconnect, 1000), 3 \<mapsto> (ConnectionTimeout, 10000)]
   \<and> card (dom (timers (run [(0, False, Call_createWSConnection False), (0, False, SocketClose 0 1006),
        (0, False, Call_createWSConnection True)] (initial ''https:'' ''example.org'')))) = 2"
proof -
  have "reachable (run [(0, False, Call_createWSConnection False), (0, False, SocketClose 0 1006),
        (0, False, Call_createWSConnection True)] (initial ''https:'' ''example.org''))"
    by (rule run_reachable [OF reachable.start])
  then show ?thesis unfolding pending_both by simp
qed

text \<open>
  C8, amended. In every world the manager can reach, at most one reconnect timer is
  pending, and it is the one \<open>reconnectTimer\<close> refers to: \<open>scheduleReconnect\<close> cancels the
  reconnect timer armed before and leaves exactly the new one. Connection timeouts are
  kept apart from it and are not counted here.
\<close>

theorem one_reconnect_timer:
  assumes "reachable w"
  shows "reconnect_timers w \<subseteq> set_option (reconnectTimer w)
       \<and> card (reconnect_timers w) \<le> 1
       \<and> (reconnectAttempts w < maxReconnectAttempts
            \<longrightarrow> reconnect_timers (scheduleReconnect rnd w) = {nextTimer w})"
proof -
  from reachable_tracked [OF assms] have t: "tracked w" .
  then have sub: "reconnect_timers w \<subseteq> set_option (reconnectTimer w)"
    by (auto simp: tracked_def reconnect_timers_def)
  have "card (reconnect_timers w) \<le> card (set_option (reconnectTimer w))"
    by (rule card_mono [OF _ sub]) (cases "reconnectTimer w", simp_all)
  also have "\<dots> \<le> 1" by (cases "reconnectTimer w") simp_all
  finally have c: "card (reconnect_timers w) \<le> 1" .
  from sub c reconnect_timers_scheduleReconnect [OF t] show ?thesis by blast
qed

theorem one_reconnect_timer_witness:
  "reachable (run [(0, False, Call_createWSConnection False), (0, False, SocketClose 0 1006),
        (0, False, Call_createWSConnection True)] (initial ''https:'' ''example.org''))
   \<and> reconnect_timers (run [(0, False, Call_createWSConnection False), (0, False, SocketClose 0 1006),
        (0, False, Call_createWSConnection True)] (initial ''https:'' ''example.org'')) = {2}
   \<and> reconnect_timers (scheduleReconnect 0
        (run [(0, False, Call_createWSConnection False), (0, False, SocketClose 0 1006),
        (0, False, Call_createWSConnection True)] (initial ''https:'' ''example.org''))) = {4}"
proof -
  let ?w = "run [(0, False, Call_createWSConnection False), (0, False, SocketClose 0 1006),
        (0, False, Call_createWSConnection True)] (initial ''https:'' ''example.org'')"
  have r: "reachable ?w"
    by (rule run_reachable [OF reachable.start])
  have a: "reconnectAttempts ?w < maxReconnectAttempts"
    unfolding pending_both by (simp add: maxReconnectAttempts_def)
  have n: "nextTimer ?w = 4"
    unfolding pending_both by simp
  have two: "reconnect_timers ?w = {2}"
    unfolding pending_both by (auto simp: reconnect_timers_def split: if_splits)
  from one_reconnect_timer [OF r, of 0] a n
  have "reconnect_timers (scheduleReconnect 0 ?w) = {4}" by simp
  with r two show ?thesis by simp
qed

end
